theory Spec2Isabelle
  imports Main
begin

section \<open>Documents and collections\<close>

text \<open>
  The three Mongoose models the reaction code touches. Object ids are natural numbers;
  a new document takes the store's next unused id (\<open>nextId\<close>), which stands for the
  freshness of a generated ObjectId. The counters are JavaScript numbers that start at 0
  and only ever change by 1, so they are integers here, and nothing keeps them from
  becoming negative. Fields the reaction code never reads (title, content, urls, tags,
  timestamps) are left out.
\<close>

type_synonym oid = nat

datatype like_type = Like | Dislike

record like_doc =
  l_id :: oid
  l_user :: oid
  l_video :: "oid option"
  l_comment :: "oid option"
  l_type :: like_type

record video_doc =
  v_id :: oid
  v_user :: oid
  v_views :: int
  v_likes :: int
  v_dislikes :: int

record comment_doc =
  c_id :: oid
  c_user :: oid
  c_video :: oid
  c_likes :: int
  c_dislikes :: int
  c_replies :: "oid list"
  c_isReply :: bool
  c_parentComment :: "oid option"

record db =
  Videos :: "video_doc list"
  Comments :: "comment_doc list"
  Likes :: "like_doc list"
  nextId :: oid

definition empty_db :: db where
  "empty_db = \<lparr>Videos = [], Comments = [], Likes = [], nextId = 0\<rparr>"

section \<open>Store operations\<close>

text \<open>
  \<open>Model.deleteOne\<close> removes the first matching document, \<open>Model.updateOne\<close> changes
  the first matching document, \<open>Model.deleteMany\<close> removes every matching document and
  \<open>Model.findOne\<close> / \<open>findById\<close> is \<open>find\<close> on the collection.
\<close>

fun deleteOne :: "('a \<Rightarrow> bool) \<Rightarrow> 'a list \<Rightarrow> 'a list" where
  "deleteOne P [] = []"
| "deleteOne P (x # xs) = (if P x then xs else x # deleteOne P xs)"

fun updateOne :: "('a \<Rightarrow> bool) \<Rightarrow> ('a \<Rightarrow> 'a) \<Rightarrow> 'a list \<Rightarrow> 'a list" where
  "updateOne P f [] = []"
| "updateOne P f (x # xs) = (if P x then f x # xs else x # updateOne P f xs)"

definition deleteMany :: "('a \<Rightarrow> bool) \<Rightarrow> 'a list \<Rightarrow> 'a list" where
  "deleteMany P xs = filter (\<lambda>x. \<not> P x) xs"

datatype store_error = DuplicateKey | DocumentNotFound

subsection \<open>The unique indexes of LikeSchema\<close>

text \<open>
  The schema declares two compound indexes, both \<open>unique\<close> and \<open>sparse\<close>:
  \<^verbatim>\<open>LikeSchema.index({ user: 1, video: 1 }, { unique: true, sparse: true })\<close> and
  \<^verbatim>\<open>LikeSchema.index({ user: 1, comment: 1 }, { unique: true, sparse: true })\<close>.
  A sparse compound index over ascending keys holds every document that has a value for
  at least one of its keys, and a key the document lacks is indexed as null. \<open>user\<close> is
  required, so each index holds every Like document: a document without \<open>comment\<close> has
  the key (user, null) in the second index.
\<close>

datatype like_field = FUser | FVideo | FComment

record index_spec =
  idx_fields :: "like_field list"
  idx_unique :: bool
  idx_sparse :: bool

fun field_value :: "like_field \<Rightarrow> like_doc \<Rightarrow> oid option" where
  "field_value FUser r = Some (l_user r)"
| "field_value FVideo r = l_video r"
| "field_value FComment r = l_comment r"

definition index_key :: "index_spec \<Rightarrow> like_doc \<Rightarrow> oid option list" where
  "index_key idx r = map (\<lambda>f. field_value f r) (idx_fields idx)"

definition indexed :: "index_spec \<Rightarrow> like_doc \<Rightarrow> bool" where
  "indexed idx r =
     (if idx_sparse idx then list_ex (\<lambda>f. field_value f r \<noteq> None) (idx_fields idx) else True)"

definition duplicate_key :: "index_spec \<Rightarrow> like_doc \<Rightarrow> like_doc list \<Rightarrow> bool" where
  "duplicate_key idx r rows =
     (idx_unique idx \<and> indexed idx r \<and>
      list_ex (\<lambda>r'. indexed idx r' \<and> index_key idx r' = index_key idx r) rows)"

definition LikeSchema_indexes :: "index_spec list" where
  "LikeSchema_indexes =
     [\<lparr>idx_fields = [FUser, FVideo], idx_unique = True, idx_sparse = True\<rparr>,
      \<lparr>idx_fields = [FUser, FComment], idx_unique = True, idx_sparse = True\<rparr>]"

text \<open>
  \<open>newLike.save()\<close>: the insert is refused with a duplicate-key error when a unique
  index already holds the new document's key. The new document takes the id \<open>nextId\<close>.
\<close>

definition Like_create :: "like_doc \<Rightarrow> db \<Rightarrow> store_error + db" where
  "Like_create r d =
     (if list_ex (\<lambda>idx. duplicate_key idx r (Likes d)) LikeSchema_indexes
      then Inl DuplicateKey
      else Inr (d\<lparr>Likes := Likes d @ [r], nextId := Suc (nextId d)\<rparr>))"

text \<open>
  \<open>doc.save()\<close> on a document that was read before: the modified paths are written to
  the stored document with the same \<open>_id\<close>; when that document is gone the save is
  rejected.
\<close>

definition Like_save_type :: "oid \<Rightarrow> like_type \<Rightarrow> db \<Rightarrow> store_error + db" where
  "Like_save_type i k d =
     (case find (\<lambda>r. l_id r = i) (Likes d) of
        None \<Rightarrow> Inl DocumentNotFound
      | Some _ \<Rightarrow>
          Inr (d\<lparr>Likes := updateOne (\<lambda>r. l_id r = i) (\<lambda>r. r\<lparr>l_type := k\<rparr>) (Likes d)\<rparr>))"

definition Video_save :: "oid \<Rightarrow> (video_doc \<Rightarrow> video_doc) \<Rightarrow> db \<Rightarrow> store_error + db" where
  "Video_save i upd d =
     (case find (\<lambda>x. v_id x = i) (Videos d) of
        None \<Rightarrow> Inl DocumentNotFound
      | Some _ \<Rightarrow> Inr (d\<lparr>Videos := updateOne (\<lambda>x. v_id x = i) upd (Videos d)\<rparr>))"

definition Comment_save :: "oid \<Rightarrow> (comment_doc \<Rightarrow> comment_doc) \<Rightarrow> db \<Rightarrow> store_error + db" where
  "Comment_save i upd d =
     (case find (\<lambda>c. c_id c = i) (Comments d) of
        None \<Rightarrow> Inl DocumentNotFound
      | Some _ \<Rightarrow> Inr (d\<lparr>Comments := updateOne (\<lambda>c. c_id c = i) upd (Comments d)\<rparr>))"

section \<open>Responses\<close>

datatype payload =
    Message string
  | ValidationErrors
  | MessageVideo string video_doc
  | MessageComment string comment_doc
  | LikeStatus bool bool
  | VideoJson video_doc
  | CommentJson comment_doc

type_synonym response = "nat \<times> payload"

definition server_error :: response where
  "server_error = (500, Message ''Server error'')"

section \<open>Reactions on videos (routes/videos.js)\<close>

text \<open>
  Each handler first reads (\<open>Video.findById\<close>, \<open>Like.findOne\<close>) and then writes from
  the documents it holds in memory. The two halves are separate definitions, because
  every \<open>await\<close> lets another request run in between; a request that runs alone is
  the write half applied to the store its own read half saw. The handler's
  \<open>try/catch\<close> turns every rejected store operation into the 500 response, and
  the writes made before the rejection stay.
\<close>

definition videoReaction_read :: "db \<Rightarrow> oid \<Rightarrow> oid \<Rightarrow> (video_doc \<times> like_doc option) option" where
  "videoReaction_read d u vid =
     (case find (\<lambda>x. v_id x = vid) (Videos d) of
        None \<Rightarrow> None
      | Some video \<Rightarrow>
          Some (video, find (\<lambda>r. l_user r = u \<and> l_video r = Some (v_id video)) (Likes d)))"

definition likeVideo_write :: "oid \<Rightarrow> video_doc \<Rightarrow> like_doc option \<Rightarrow> db \<Rightarrow> response \<times> db" where
  "likeVideo_write u video existingLike d =
     (case existingLike of
        Some e \<Rightarrow>
          (case l_type e of
             Like \<Rightarrow>
               (let d1 = d\<lparr>Likes := deleteOne (\<lambda>r. l_id r = l_id e) (Likes d)\<rparr>;
                    video' = video\<lparr>v_likes := v_likes video - 1\<rparr>
                in case Video_save (v_id video) (\<lambda>x. x\<lparr>v_likes := v_likes video'\<rparr>) d1 of
                     Inl err \<Rightarrow> (server_error, d1)
                   | Inr d2 \<Rightarrow> ((200, MessageVideo ''Like removed'' video'), d2))
           | Dislike \<Rightarrow>
               (case Like_save_type (l_id e) Like d of
                  Inl err \<Rightarrow> (server_error, d)
                | Inr d1 \<Rightarrow>
                    (let video' = video\<lparr>v_likes := v_likes video + 1,
                                        v_dislikes := v_dislikes video - 1\<rparr>
                     in case Video_save (v_id video)
                               (\<lambda>x. x\<lparr>v_likes := v_likes video',
                                      v_dislikes := v_dislikes video'\<rparr>) d1 of
                          Inl err \<Rightarrow> (server_error, d1)
                        | Inr d2 \<Rightarrow>
                            ((200, MessageVideo ''Changed dislike to like'' video'), d2))))
      | None \<Rightarrow>
          (case Like_create \<lparr>l_id = nextId d, l_user = u, l_video = Some (v_id video),
                             l_comment = None, l_type = Like\<rparr> d of
             Inl err \<Rightarrow> (server_error, d)
           | Inr d1 \<Rightarrow>
               (let video' = video\<lparr>v_likes := v_likes video + 1\<rparr>
                in case Video_save (v_id video) (\<lambda>x. x\<lparr>v_likes := v_likes video'\<rparr>) d1 of
                     Inl err \<Rightarrow> (server_error, d1)
                   | Inr d2 \<Rightarrow> ((200, MessageVideo ''Video liked'' video'), d2))))"

definition likeVideo :: "db \<Rightarrow> oid \<Rightarrow> oid \<Rightarrow> response \<times> db" where
  "likeVideo d u vid =
     (case videoReaction_read d u vid of
        None \<Rightarrow> ((404, Message ''Video not found''), d)
      | Some (video, existingLike) \<Rightarrow> likeVideo_write u video existingLike d)"

definition dislikeVideo_write :: "oid \<Rightarrow> video_doc \<Rightarrow> like_doc option \<Rightarrow> db \<Rightarrow> response \<times> db" where
  "dislikeVideo_write u video existingLike d =
     (case existingLike of
        Some e \<Rightarrow>
          (case l_type e of
             Dislike \<Rightarrow>
               (let d1 = d\<lparr>Likes := deleteOne (\<lambda>r. l_id r = l_id e) (Likes d)\<rparr>;
                    video' = video\<lparr>v_dislikes := v_dislikes video - 1\<rparr>
                in case Video_save (v_id video) (\<lambda>x. x\<lparr>v_dislikes := v_dislikes video'\<rparr>) d1 of
                     Inl err \<Rightarrow> (server_error, d1)
                   | Inr d2 \<Rightarrow> ((200, MessageVideo ''Dislike removed'' video'), d2))
           | Like \<Rightarrow>
               (case Like_save_type (l_id e) Dislike d of
                  Inl err \<Rightarrow> (server_error, d)
                | Inr d1 \<Rightarrow>
                    (let video' = video\<lparr>v_likes := v_likes video - 1,
                                        v_dislikes := v_dislikes video + 1\<rparr>
                     in case Video_save (v_id video)
                               (\<lambda>x. x\<lparr>v_likes := v_likes video',
                                      v_dislikes := v_dislikes video'\<rparr>) d1 of
                          Inl err \<Rightarrow> (server_error, d1)
                        | Inr d2 \<Rightarrow>
                            ((200, MessageVideo ''Changed like to dislike'' video'), d2))))
      | None \<Rightarrow>
          (case Like_create \<lparr>l_id = nextId d, l_user = u, l_video = Some (v_id video),
                             l_comment = None, l_type = Dislike\<rparr> d of
             Inl err \<Rightarrow> (server_error, d)
           | Inr d1 \<Rightarrow>
               (let video' = video\<lparr>v_dislikes := v_dislikes video + 1\<rparr>
                in case Video_save (v_id video) (\<lambda>x. x\<lparr>v_dislikes := v_dislikes video'\<rparr>) d1 of
                     Inl err \<Rightarrow> (server_error, d1)
                   | Inr d2 \<Rightarrow> ((200, MessageVideo ''Video disliked'' video'), d2))))"

definition dislikeVideo :: "db \<Rightarrow> oid \<Rightarrow> oid \<Rightarrow> response \<times> db" where
  "dislikeVideo d u vid =
     (case videoReaction_read d u vid of
        None \<Rightarrow> ((404, Message ''Video not found''), d)
      | Some (video, existingLike) \<Rightarrow> dislikeVideo_write u video existingLike d)"

text \<open>
  \<open>GET /:id/like-status\<close> reads the Like collection only; the video itself is never
  looked up. The route parameter is a string that \<open>Like.findOne\<close> casts to an
  ObjectId: when it is not one, the query rejects (CastError) and the handler's catch
  answers 500. The other routes are modelled from the point where their \<open>:id\<close> has
  been cast.
\<close>

datatype id_param = ObjectId oid | NotAnObjectId

definition likeStatus :: "db \<Rightarrow> oid \<Rightarrow> id_param \<Rightarrow> response" where
  "likeStatus d u param =
     (case param of
        NotAnObjectId \<Rightarrow> server_error
      | ObjectId vid \<Rightarrow>
          (case find (\<lambda>r. l_user r = u \<and> l_video r = Some vid) (Likes d) of
             None \<Rightarrow> (200, LikeStatus False False)
           | Some like \<Rightarrow> (200, LikeStatus (l_type like = Like) (l_type like = Dislike))))"

section \<open>The other video routes\<close>

text \<open>
  \<open>POST /api/videos\<close>, \<open>GET /api/videos/:id\<close>, \<open>POST /api/videos/:id/comments\<close> and
  \<open>DELETE /api/videos/:id\<close>. The outcome of express-validator on the request body
  (\<open>valid\<close>) and the presence of the two uploaded files (\<open>files\<close>) are inputs. A new
  document gets the schema defaults: both counters 0.
\<close>

definition postVideo :: "db \<Rightarrow> oid \<Rightarrow> bool \<Rightarrow> bool \<Rightarrow> response \<times> db" where
  "postVideo d u valid files =
     (if \<not> valid then ((400, ValidationErrors), d)
      else if \<not> files then ((400, Message ''Video and thumbnail are required''), d)
      else
        (let video = \<lparr>v_id = nextId d, v_user = u, v_views = 0, v_likes = 0, v_dislikes = 0\<rparr>
         in ((201, VideoJson video),
             d\<lparr>Videos := Videos d @ [video], nextId := Suc (nextId d)\<rparr>)))"

definition getVideo :: "db \<Rightarrow> oid \<Rightarrow> response \<times> db" where
  "getVideo d vid =
     (case find (\<lambda>x. v_id x = vid) (Videos d) of
        None \<Rightarrow> ((404, Message ''Video not found''), d)
      | Some video \<Rightarrow>
          (let video' = video\<lparr>v_views := v_views video + 1\<rparr>
           in case Video_save (v_id video) (\<lambda>x. x\<lparr>v_views := v_views video'\<rparr>) d of
                Inl err \<Rightarrow> (server_error, d)
              | Inr d1 \<Rightarrow> ((200, VideoJson video'), d1)))"

definition postComment :: "db \<Rightarrow> oid \<Rightarrow> oid \<Rightarrow> bool \<Rightarrow> response \<times> db" where
  "postComment d u vid valid =
     (if \<not> valid then ((400, ValidationErrors), d)
      else
        (case find (\<lambda>x. v_id x = vid) (Videos d) of
           None \<Rightarrow> ((404, Message ''Video not found''), d)
         | Some video \<Rightarrow>
             (let comment = \<lparr>c_id = nextId d, c_user = u, c_video = v_id video, c_likes = 0,
                             c_dislikes = 0, c_replies = [], c_isReply = False,
                             c_parentComment = None\<rparr>
              in ((201, CommentJson comment),
                  d\<lparr>Comments := Comments d @ [comment], nextId := Suc (nextId d)\<rparr>))))"

definition deleteVideo :: "db \<Rightarrow> oid \<Rightarrow> oid \<Rightarrow> response \<times> db" where
  "deleteVideo d u vid =
     (case find (\<lambda>x. v_id x = vid) (Videos d) of
        None \<Rightarrow> ((404, Message ''Video not found''), d)
      | Some video \<Rightarrow>
          if v_user video \<noteq> u
          then ((401, Message ''Not authorized to delete this video''), d)
          else
            ((200, Message ''Video removed''),
             d\<lparr>Comments := deleteMany (\<lambda>c. c_video c = v_id video) (Comments d),
               Likes := deleteMany (\<lambda>r. l_video r = Some (v_id video)) (Likes d),
               Videos := deleteOne (\<lambda>x. v_id x = v_id video) (Videos d)\<rparr>))"

section \<open>The comment routes\<close>

definition postReply :: "db \<Rightarrow> oid \<Rightarrow> oid \<Rightarrow> bool \<Rightarrow> response \<times> db" where
  "postReply d u cid valid =
     (if \<not> valid then ((400, ValidationErrors), d)
      else
        (case find (\<lambda>c. c_id c = cid) (Comments d) of
           None \<Rightarrow> ((404, Message ''Comment not found''), d)
         | Some parentComment \<Rightarrow>
             (let reply = \<lparr>c_id = nextId d, c_user = u, c_video = c_video parentComment,
                           c_likes = 0, c_dislikes = 0, c_replies = [], c_isReply = True,
                           c_parentComment = Some (c_id parentComment)\<rparr>;
                  d1 = d\<lparr>Comments := Comments d @ [reply], nextId := Suc (nextId d)\<rparr>
              in case Comment_save (c_id parentComment)
                        (\<lambda>c. c\<lparr>c_replies := c_replies c @ [c_id reply]\<rparr>) d1 of
                   Inl err \<Rightarrow> (server_error, d1)
                 | Inr d2 \<Rightarrow> ((201, CommentJson reply), d2))))"

definition commentReaction_read ::
  "db \<Rightarrow> oid \<Rightarrow> oid \<Rightarrow> (comment_doc \<times> like_doc option) option" where
  "commentReaction_read d u cid =
     (case find (\<lambda>c. c_id c = cid) (Comments d) of
        None \<Rightarrow> None
      | Some comment \<Rightarrow>
          Some (comment,
                find (\<lambda>r. l_user r = u \<and> l_comment r = Some (c_id comment)) (Likes d)))"

definition likeComment_write ::
  "oid \<Rightarrow> comment_doc \<Rightarrow> like_doc option \<Rightarrow> db \<Rightarrow> response \<times> db" where
  "likeComment_write u comment existingLike d =
     (case existingLike of
        Some e \<Rightarrow>
          (case l_type e of
             Like \<Rightarrow>
               (let d1 = d\<lparr>Likes := deleteOne (\<lambda>r. l_id r = l_id e) (Likes d)\<rparr>;
                    comment' = comment\<lparr>c_likes := c_likes comment - 1\<rparr>
                in case Comment_save (c_id comment)
                          (\<lambda>c. c\<lparr>c_likes := c_likes comment'\<rparr>) d1 of
                     Inl err \<Rightarrow> (server_error, d1)
                   | Inr d2 \<Rightarrow> ((200, MessageComment ''Like removed'' comment'), d2))
           | Dislike \<Rightarrow>
               (case Like_save_type (l_id e) Like d of
                  Inl err \<Rightarrow> (server_error, d)
                | Inr d1 \<Rightarrow>
                    (let comment' = comment\<lparr>c_likes := c_likes comment + 1,
                                            c_dislikes := c_dislikes comment - 1\<rparr>
                     in case Comment_save (c_id comment)
                               (\<lambda>c. c\<lparr>c_likes := c_likes comment',
                                      c_dislikes := c_dislikes comment'\<rparr>) d1 of
                          Inl err \<Rightarrow> (server_error, d1)
                        | Inr d2 \<Rightarrow>
                            ((200, MessageComment ''Changed dislike to like'' comment'), d2))))
      | None \<Rightarrow>
          (case Like_create \<lparr>l_id = nextId d, l_user = u, l_video = None,
                             l_comment = Some (c_id comment), l_type = Like\<rparr> d of
             Inl err \<Rightarrow> (server_error, d)
           | Inr d1 \<Rightarrow>
               (let comment' = comment\<lparr>c_likes := c_likes comment + 1\<rparr>
                in case Comment_save (c_id comment)
                          (\<lambda>c. c\<lparr>c_likes := c_likes comment'\<rparr>) d1 of
                     Inl err \<Rightarrow> (server_error, d1)
                   | Inr d2 \<Rightarrow> ((200, MessageComment ''Comment liked'' comment'), d2))))"

definition likeComment :: "db \<Rightarrow> oid \<Rightarrow> oid \<Rightarrow> response \<times> db" where
  "likeComment d u cid =
     (case commentReaction_read d u cid of
        None \<Rightarrow> ((404, Message ''Comment not found''), d)
      | Some (comment, existingLike) \<Rightarrow> likeComment_write u comment existingLike d)"

definition dislikeComment_write ::
  "oid \<Rightarrow> comment_doc \<Rightarrow> like_doc option \<Rightarrow> db \<Rightarrow> response \<times> db" where
  "dislikeComment_write u comment existingLike d =
     (case existingLike of
        Some e \<Rightarrow>
          (case l_type e of
             Dislike \<Rightarrow>
               (let d1 = d\<lparr>Likes := deleteOne (\<lambda>r. l_id r = l_id e) (Likes d)\<rparr>;
                    comment' = comment\<lparr>c_dislikes := c_dislikes comment - 1\<rparr>
                in case Comment_save (c_id comment)
                          (\<lambda>c. c\<lparr>c_dislikes := c_dislikes comment'\<rparr>) d1 of
                     Inl err \<Rightarrow> (server_error, d1)
                   | Inr d2 \<Rightarrow> ((200, MessageComment ''Dislike removed'' comment'), d2))
           | Like \<Rightarrow>
               (case Like_save_type (l_id e) Dislike d of
                  Inl err \<Rightarrow> (server_error, d)
                | Inr d1 \<Rightarrow>
                    (let comment' = comment\<lparr>c_likes := c_likes comment - 1,
                                            c_dislikes := c_dislikes comment + 1\<rparr>
                     in case Comment_save (c_id comment)
                               (\<lambda>c. c\<lparr>c_likes := c_likes comment',
                                      c_dislikes := c_dislikes comment'\<rparr>) d1 of
                          Inl err \<Rightarrow> (server_error, d1)
                        | Inr d2 \<Rightarrow>
                            ((200, MessageComment ''Changed like to dislike'' comment'), d2))))
      | None \<Rightarrow>
          (case Like_create \<lparr>l_id = nextId d, l_user = u, l_video = None,
                             l_comment = Some (c_id comment), l_type = Dislike\<rparr> d of
             Inl err \<Rightarrow> (server_error, d)
           | Inr d1 \<Rightarrow>
               (let comment' = comment\<lparr>c_dislikes := c_dislikes comment + 1\<rparr>
                in case Comment_save (c_id comment)
                          (\<lambda>c. c\<lparr>c_dislikes := c_dislikes comment'\<rparr>) d1 of
                     Inl err \<Rightarrow> (server_error, d1)
                   | Inr d2 \<Rightarrow> ((200, MessageComment ''Comment disliked'' comment'), d2))))"

definition dislikeComment :: "db \<Rightarrow> oid \<Rightarrow> oid \<Rightarrow> response \<times> db" where
  "dislikeComment d u cid =
     (case commentReaction_read d u cid of
        None \<Rightarrow> ((404, Message ''Comment not found''), d)
      | Some (comment, existingLike) \<Rightarrow> dislikeComment_write u comment existingLike d)"

text \<open>
  \<open>DELETE /api/comments/:id\<close>: a parent comment takes its replies with it, a reply is
  pulled out of its parent's \<open>replies\<close>; then the Like documents whose \<open>comment\<close> is
  this comment are deleted, then the comment.
\<close>

definition deleteComment :: "db \<Rightarrow> oid \<Rightarrow> oid \<Rightarrow> response \<times> db" where
  "deleteComment d u cid =
     (case find (\<lambda>c. c_id c = cid) (Comments d) of
        None \<Rightarrow> ((404, Message ''Comment not found''), d)
      | Some comment \<Rightarrow>
          if c_user comment \<noteq> u
          then ((401, Message ''Not authorized to delete this comment''), d)
          else
            (let cs1 =
                   (if \<not> c_isReply comment
                    then deleteMany (\<lambda>c. c_parentComment c = Some (c_id comment)) (Comments d)
                    else updateOne (\<lambda>c. Some (c_id c) = c_parentComment comment)
                           (\<lambda>c. c\<lparr>c_replies := removeAll (c_id comment) (c_replies c)\<rparr>)
                           (Comments d))
             in ((200, Message ''Comment removed''),
                 d\<lparr>Comments := deleteOne (\<lambda>c. c_id c = c_id comment) cs1,
                   Likes := deleteMany (\<lambda>r. l_comment r = Some (c_id comment)) (Likes d)\<rparr>)))"

section \<open>Requests, one at a time\<close>

datatype request =
    PostVideo oid bool bool
  | GetVideo oid
  | PostComment oid oid bool
  | PostReply oid oid bool
  | LikeVideo oid oid
  | DislikeVideo oid oid
  | LikeComment oid oid
  | DislikeComment oid oid
  | DeleteVideo oid oid
  | DeleteComment oid oid
  | GetLikeStatus oid id_param

fun handle :: "db \<Rightarrow> request \<Rightarrow> response \<times> db" where
  "handle d (PostVideo u valid files) = postVideo d u valid files"
| "handle d (GetVideo vid) = getVideo d vid"
| "handle d (PostComment u vid valid) = postComment d u vid valid"
| "handle d (PostReply u cid valid) = postReply d u cid valid"
| "handle d (LikeVideo u vid) = likeVideo d u vid"
| "handle d (DislikeVideo u vid) = dislikeVideo d u vid"
| "handle d (LikeComment u cid) = likeComment d u cid"
| "handle d (DislikeComment u cid) = dislikeComment d u cid"
| "handle d (DeleteVideo u vid) = deleteVideo d u vid"
| "handle d (DeleteComment u cid) = deleteComment d u cid"
| "handle d (GetLikeStatus u param) = (likeStatus d u param, d)"

fun run :: "db \<Rightarrow> request list \<Rightarrow> db" where
  "run d [] = d"
| "run d (q # qs) = run (snd (handle d q)) qs"

fun responses :: "db \<Rightarrow> request list \<Rightarrow> response list" where
  "responses d [] = []"
| "responses d (q # qs) = fst (handle d q) # responses (snd (handle d q)) qs"

text \<open>The stores the server can be in after serving requests one after another.\<close>

inductive reachable :: "db \<Rightarrow> bool" where
  start: "reachable empty_db"
| step: "reachable d \<Longrightarrow> reachable (snd (handle d q))"

section \<open>Reactions and counters as the specification names them\<close>

text \<open>
  A target is a video or a comment. The reaction an actor holds on a target is the Like
  document the handlers look up; the counters of a target are the two numbers stored on
  its document.
\<close>

datatype target = OnVideo oid | OnComment oid

fun find_reaction :: "db \<Rightarrow> oid \<Rightarrow> target \<Rightarrow> like_doc option" where
  "find_reaction d u (OnVideo v) = find (\<lambda>r. l_user r = u \<and> l_video r = Some v) (Likes d)"
| "find_reaction d u (OnComment c) = find (\<lambda>r. l_user r = u \<and> l_comment r = Some c) (Likes d)"

fun target_counters :: "db \<Rightarrow> target \<Rightarrow> (int \<times> int) option" where
  "target_counters d (OnVideo v) =
     map_option (\<lambda>x. (v_likes x, v_dislikes x)) (find (\<lambda>x. v_id x = v) (Videos d))"
| "target_counters d (OnComment c) =
     map_option (\<lambda>x. (c_likes x, c_dislikes x)) (find (\<lambda>x. c_id x = c) (Comments d))"

fun react_request :: "like_type \<Rightarrow> oid \<Rightarrow> target \<Rightarrow> request" where
  "react_request Like u (OnVideo v) = LikeVideo u v"
| "react_request Dislike u (OnVideo v) = DislikeVideo u v"
| "react_request Like u (OnComment c) = LikeComment u c"
| "react_request Dislike u (OnComment c) = DislikeComment u c"

definition video_reactions :: "like_type \<Rightarrow> oid \<Rightarrow> like_doc list \<Rightarrow> int" where
  "video_reactions k v rows =
     int (length (filter (\<lambda>r. l_video r = Some v \<and> l_type r = k) rows))"

definition comment_reactions :: "like_type \<Rightarrow> oid \<Rightarrow> like_doc list \<Rightarrow> int" where
  "comment_reactions k c rows =
     int (length (filter (\<lambda>r. l_comment r = Some c \<and> l_type r = k) rows))"

text \<open>
  The state machine of the specification (section 4.1), written over the store: the
  Reaction Store's create, updateKind and delete, and the Counter Maintainer's adjust.
\<close>

fun new_reaction :: "db \<Rightarrow> oid \<Rightarrow> target \<Rightarrow> like_type \<Rightarrow> like_doc" where
  "new_reaction d u (OnVideo v) k =
     \<lparr>l_id = nextId d, l_user = u, l_video = Some v, l_comment = None, l_type = k\<rparr>"
| "new_reaction d u (OnComment c) k =
     \<lparr>l_id = nextId d, l_user = u, l_video = None, l_comment = Some c, l_type = k\<rparr>"

definition create_reaction :: "like_doc \<Rightarrow> db \<Rightarrow> db" where
  "create_reaction r d = d\<lparr>Likes := Likes d @ [r], nextId := Suc (nextId d)\<rparr>"

definition update_kind :: "oid \<Rightarrow> like_type \<Rightarrow> db \<Rightarrow> db" where
  "update_kind i k d =
     d\<lparr>Likes := map (\<lambda>r. if l_id r = i then r\<lparr>l_type := k\<rparr> else r) (Likes d)\<rparr>"

definition delete_reaction :: "oid \<Rightarrow> db \<Rightarrow> db" where
  "delete_reaction i d = d\<lparr>Likes := filter (\<lambda>r. l_id r \<noteq> i) (Likes d)\<rparr>"

fun adjust :: "target \<Rightarrow> int \<Rightarrow> int \<Rightarrow> db \<Rightarrow> db" where
  "adjust (OnVideo v) likeDelta dislikeDelta d =
     d\<lparr>Videos := map (\<lambda>x. if v_id x = v
                           then x\<lparr>v_likes := v_likes x + likeDelta,
                                  v_dislikes := v_dislikes x + dislikeDelta\<rparr>
                           else x) (Videos d)\<rparr>"
| "adjust (OnComment c) likeDelta dislikeDelta d =
     d\<lparr>Comments := map (\<lambda>x. if c_id x = c
                             then x\<lparr>c_likes := c_likes x + likeDelta,
                                    c_dislikes := c_dislikes x + dislikeDelta\<rparr>
                             else x) (Comments d)\<rparr>"

definition react :: "db \<Rightarrow> oid \<Rightarrow> target \<Rightarrow> like_type \<Rightarrow> db" where
  "react d u t requested =
     (case find_reaction d u t of
        None \<Rightarrow>
          (case requested of
             Like \<Rightarrow> adjust t 1 0 (create_reaction (new_reaction d u t Like) d)
           | Dislike \<Rightarrow> adjust t 0 1 (create_reaction (new_reaction d u t Dislike) d))
      | Some e \<Rightarrow>
          (case (l_type e, requested) of
             (Like, Like) \<Rightarrow> adjust t (- 1) 0 (delete_reaction (l_id e) d)
           | (Dislike, Dislike) \<Rightarrow> adjust t 0 (- 1) (delete_reaction (l_id e) d)
           | (Like, Dislike) \<Rightarrow> adjust t (- 1) 1 (update_kind (l_id e) Dislike d)
           | (Dislike, Like) \<Rightarrow> adjust t 1 (- 1) (update_kind (l_id e) Like d)))"

text \<open>The store refuses the insert of a new reaction: a unique index holds its key.\<close>

definition refused :: "db \<Rightarrow> like_doc \<Rightarrow> bool" where
  "refused d r = list_ex (\<lambda>idx. duplicate_key idx r (Likes d)) LikeSchema_indexes"

section \<open>Invariants of the store\<close>

definition one_target :: "like_doc \<Rightarrow> bool" where
  "one_target r = ((l_video r = None) \<noteq> (l_comment r = None))"

definition ids_ok :: "db \<Rightarrow> bool" where
  "ids_ok d =
     (distinct (map v_id (Videos d)) \<and> distinct (map c_id (Comments d)) \<and>
      distinct (map l_id (Likes d)) \<and>
      (\<forall>x\<in>set (Videos d). v_id x < nextId d) \<and>
      (\<forall>c\<in>set (Comments d). c_id c < nextId d) \<and>
      (\<forall>r\<in>set (Likes d). l_id r < nextId d))"

definition refs_ok :: "db \<Rightarrow> bool" where
  "refs_ok d =
     (\<forall>r\<in>set (Likes d). one_target r \<and>
        (\<forall>v. l_video r = Some v \<longrightarrow> v \<in> v_id ` set (Videos d)) \<and>
        (\<forall>c. l_comment r = Some c \<longrightarrow> c < nextId d))"

definition keys_ok :: "db \<Rightarrow> bool" where
  "keys_ok d =
     (distinct (map (\<lambda>r. (l_user r, l_video r)) (Likes d)) \<and>
      distinct (map (\<lambda>r. (l_user r, l_comment r)) (Likes d)))"

definition counters_ok :: "db \<Rightarrow> bool" where
  "counters_ok d =
     ((\<forall>x\<in>set (Videos d).
         v_likes x = video_reactions Like (v_id x) (Likes d) \<and>
         v_dislikes x = video_reactions Dislike (v_id x) (Likes d)) \<and>
      (\<forall>c\<in>set (Comments d).
         c_likes c = comment_reactions Like (c_id c) (Likes d) \<and>
         c_dislikes c = comment_reactions Dislike (c_id c) (Likes d)))"

definition invariant :: "db \<Rightarrow> bool" where
  "invariant d = (ids_ok d \<and> refs_ok d \<and> keys_ok d \<and> counters_ok d)"

section \<open>Example stores\<close>

text \<open>
  A store reached by nine requests served one after another, and the store with a single
  video on which two overlapping requests are played later.
\<close>

definition demo_requests :: "request list" where
  "demo_requests =
     [PostVideo 1 True True, PostComment 2 0 True, PostReply 3 1 True,
      LikeVideo 2 0, LikeVideo 3 0, DislikeVideo 4 0,
      LikeComment 4 1, DislikeComment 5 2, DislikeVideo 3 0]"

definition demo_db :: db where
  "demo_db = run empty_db demo_requests"

definition race_db :: db where
  "race_db = run empty_db [PostVideo 1 True True]"

section \<open>Lists with unique ids\<close>

lemma deleteOne_filter:
  "distinct (map f xs) \<Longrightarrow> deleteOne (\<lambda>x. f x = i) xs = filter (\<lambda>x. f x \<noteq> i) xs"
proof (induction xs)
  case Nil
  show ?case by simp
next
  case (Cons x xs)
  show ?case
  proof (cases "f x = i")
    case True
    with Cons.prems have "\<forall>y\<in>set xs. f y \<noteq> i" by (force simp: image_iff)
    then have "filter (\<lambda>x. f x \<noteq> i) xs = xs" by (simp add: filter_id_conv)
    with True show ?thesis by simp
  next
    case False
    with Cons show ?thesis by simp
  qed
qed

lemma updateOne_map:
  "distinct (map f xs) \<Longrightarrow>
   updateOne (\<lambda>x. f x = i) g xs = map (\<lambda>x. if f x = i then g x else x) xs"
proof (induction xs)
  case Nil
  show ?case by simp
next
  case (Cons x xs)
  show ?case
  proof (cases "f x = i")
    case True
    with Cons.prems have "\<forall>y\<in>set xs. f y \<noteq> i" by (force simp: image_iff)
    then have "map (\<lambda>x. if f x = i then g x else x) xs = xs" by (simp add: map_idI)
    with True show ?thesis by simp
  next
    case False
    with Cons show ?thesis by simp
  qed
qed

lemma find_id_unique:
  "distinct (map f xs) \<Longrightarrow> find P xs = Some e \<Longrightarrow> x \<in> set xs \<Longrightarrow> f x = f e \<Longrightarrow> x = e"
  by (metis distinct_map find_Some_iff inj_on_def nth_mem)

lemma find_SomeD: "find P xs = Some e \<Longrightarrow> e \<in> set xs \<and> P e"
  by (metis find_Some_iff nth_mem)

lemma count_split_id:
  "distinct (map f xs) \<Longrightarrow> e \<in> set xs \<Longrightarrow>
   length (filter P xs) = length (filter (\<lambda>x. f x \<noteq> f e \<and> P x) xs) + (if P e then 1 else 0)"
proof (induction xs)
  case Nil
  then show ?case by simp
next
  case (Cons x xs)
  show ?case
  proof (cases "x = e")
    case True
    with Cons.prems have "\<forall>y\<in>set xs. f y \<noteq> f e" by (force simp: image_iff)
    then have "filter (\<lambda>x. f x \<noteq> f e \<and> P x) xs = filter P xs"
      by (auto intro: filter_cong)
    with True show ?thesis by simp
  next
    case False
    with Cons.prems have "e \<in> set xs" "f x \<noteq> f e" "distinct (map f xs)" by auto
    with Cons.IH show ?thesis by simp
  qed
qed

lemma vr_append [simp]:
  "video_reactions k v (rows @ [r]) =
   video_reactions k v rows + (if l_video r = Some v \<and> l_type r = k then 1 else 0)"
  by (simp add: video_reactions_def)

lemma cr_append [simp]:
  "comment_reactions k c (rows @ [r]) =
   comment_reactions k c rows + (if l_comment r = Some c \<and> l_type r = k then 1 else 0)"
  by (simp add: comment_reactions_def)

lemma count_filter_id:
  assumes "distinct (map f xs)" "e \<in> set xs"
  shows "int (length (filter P (filter (\<lambda>x. f x \<noteq> f e) xs))) =
         int (length (filter P xs)) - (if P e then 1 else 0)"
proof -
  have "filter P (filter (\<lambda>x. f x \<noteq> f e) xs) = filter (\<lambda>x. f x \<noteq> f e \<and> P x) xs"
    by (simp add: conj_commute)
  with count_split_id [OF assms, of P] show ?thesis by simp
qed

lemma count_map_id_nat:
  assumes "distinct (map f xs)" "e \<in> set xs"
  shows "length (filter P (map (\<lambda>x. if f x = f e then g x else x) xs)) + (if P e then 1 else 0) =
         length (filter P xs) + (if P (g e) then 1 else 0)"
  using assms
proof (induction xs)
  case Nil
  then show ?case by simp
next
  case (Cons x xs)
  show ?case
  proof (cases "x = e")
    case True
    with Cons.prems have "\<forall>y\<in>set xs. f y \<noteq> f e" by (force simp: image_iff)
    then have "map (\<lambda>x. if f x = f e then g x else x) xs = xs" by (simp add: map_idI)
    with True show ?thesis by simp
  next
    case False
    with Cons.prems have "e \<in> set xs" "f x \<noteq> f e" "distinct (map f xs)" by auto
    with Cons.IH show ?thesis by auto
  qed
qed

lemma count_map_id:
  assumes "distinct (map f xs)" "e \<in> set xs"
  shows "int (length (filter P (map (\<lambda>x. if f x = f e then g x else x) xs))) =
         int (length (filter P xs)) - (if P e then 1 else 0) + (if P (g e) then 1 else 0)"
  using count_map_id_nat [OF assms, of P g] by (simp split: if_splits)

lemma vr_filter_id:
  "distinct (map l_id rows) \<Longrightarrow> e \<in> set rows \<Longrightarrow>
   video_reactions k v (filter (\<lambda>r. l_id r \<noteq> l_id e) rows) =
   video_reactions k v rows - (if l_video e = Some v \<and> l_type e = k then 1 else 0)"
  unfolding video_reactions_def by (rule count_filter_id)

lemma cr_filter_id:
  "distinct (map l_id rows) \<Longrightarrow> e \<in> set rows \<Longrightarrow>
   comment_reactions k c (filter (\<lambda>r. l_id r \<noteq> l_id e) rows) =
   comment_reactions k c rows - (if l_comment e = Some c \<and> l_type e = k then 1 else 0)"
  unfolding comment_reactions_def by (rule count_filter_id)

lemma vr_map_type:
  "distinct (map l_id rows) \<Longrightarrow> e \<in> set rows \<Longrightarrow>
   video_reactions k v (map (\<lambda>r. if l_id r = l_id e then r\<lparr>l_type := k'\<rparr> else r) rows) =
   video_reactions k v rows - (if l_video e = Some v \<and> l_type e = k then 1 else 0)
     + (if l_video e = Some v \<and> k' = k then 1 else 0)"
  unfolding video_reactions_def
  using count_map_id [of l_id rows e "\<lambda>r. l_video r = Some v \<and> l_type r = k" "\<lambda>r. r\<lparr>l_type := k'\<rparr>"]
  by simp

lemma cr_map_type:
  "distinct (map l_id rows) \<Longrightarrow> e \<in> set rows \<Longrightarrow>
   comment_reactions k c (map (\<lambda>r. if l_id r = l_id e then r\<lparr>l_type := k'\<rparr> else r) rows) =
   comment_reactions k c rows - (if l_comment e = Some c \<and> l_type e = k then 1 else 0)
     + (if l_comment e = Some c \<and> k' = k then 1 else 0)"
  unfolding comment_reactions_def
  using count_map_id [of l_id rows e "\<lambda>r. l_comment r = Some c \<and> l_type r = k" "\<lambda>r. r\<lparr>l_type := k'\<rparr>"]
  by simp

section \<open>What the store operations do\<close>

lemma duplicate_key_video:
  "duplicate_key \<lparr>idx_fields = [FUser, FVideo], idx_unique = True, idx_sparse = True\<rparr> r rows =
   ((l_user r, l_video r) \<in> (\<lambda>r. (l_user r, l_video r)) ` set rows)"
  unfolding duplicate_key_def indexed_def index_key_def
  by (simp add: list_ex_iff image_iff) (metis)

lemma duplicate_key_comment:
  "duplicate_key \<lparr>idx_fields = [FUser, FComment], idx_unique = True, idx_sparse = True\<rparr> r rows =
   ((l_user r, l_comment r) \<in> (\<lambda>r. (l_user r, l_comment r)) ` set rows)"
  unfolding duplicate_key_def indexed_def index_key_def
  by (simp add: list_ex_iff image_iff) (metis)

lemma Video_save_found:
  "find (\<lambda>x. v_id x = i) (Videos d) = Some x \<Longrightarrow> distinct (map v_id (Videos d)) \<Longrightarrow>
   Video_save i upd d = Inr (d\<lparr>Videos := map (\<lambda>x. if v_id x = i then upd x else x) (Videos d)\<rparr>)"
  by (simp add: Video_save_def updateOne_map)

lemma Like_save_type_found:
  "find P (Likes d) = Some e \<Longrightarrow> distinct (map l_id (Likes d)) \<Longrightarrow>
   Like_save_type (l_id e) k d =
     Inr (d\<lparr>Likes := map (\<lambda>r. if l_id r = l_id e then r\<lparr>l_type := k\<rparr> else r) (Likes d)\<rparr>)"
proof -
  assume a: "find P (Likes d) = Some e" and b: "distinct (map l_id (Likes d))"
  from a have "e \<in> set (Likes d)" by (simp add: find_SomeD)
  then have "find (\<lambda>r. l_id r = l_id e) (Likes d) \<noteq> None" by (auto simp: find_None_iff)
  with b show ?thesis by (auto simp: Like_save_type_def updateOne_map)
qed

section \<open>The handlers follow the state machine\<close>

lemma refused_eq:
  "refused d r =
     ((l_user r, l_video r) \<in> (\<lambda>r. (l_user r, l_video r)) ` set (Likes d) \<or>
      (l_user r, l_comment r) \<in> (\<lambda>r. (l_user r, l_comment r)) ` set (Likes d))"
  unfolding refused_def LikeSchema_indexes_def
  by (simp add: duplicate_key_video duplicate_key_comment)

lemma Like_create_refused:
  "Like_create r d = (if refused d r then Inl DuplicateKey else Inr (create_reaction r d))"
  by (simp add: Like_create_def refused_def create_reaction_def)

lemma likeVideo_react:
  assumes "ids_ok d"
  shows "snd (likeVideo d u vid) =
     (if find (\<lambda>x. v_id x = vid) (Videos d) = None \<or>
         find_reaction d u (OnVideo vid) = None \<and> refused d (new_reaction d u (OnVideo vid) Like)
      then d else react d u (OnVideo vid) Like)"
proof (cases "find (\<lambda>x. v_id x = vid) (Videos d)")
  case None
  then show ?thesis by (simp add: likeVideo_def videoReaction_read_def)
next
  case (Some video)
  then have vid: "v_id video = vid" by (auto dest: find_SomeD)
  from assms have dv: "distinct (map v_id (Videos d))" and dl: "distinct (map l_id (Likes d))"
    by (simp_all add: ids_ok_def)
  from dv Some have same: "\<forall>x\<in>set (Videos d). v_id x = vid \<longrightarrow> x = video"
    using vid by (auto dest: find_id_unique)
  show ?thesis
  proof (cases "find (\<lambda>r. l_user r = u \<and> l_video r = Some vid) (Likes d)")
    case None
    with Some vid dv same show ?thesis
      by (auto simp: likeVideo_def videoReaction_read_def likeVideo_write_def Video_save_found
            Like_create_refused create_reaction_def react_def Let_def)
  next
    case e: (Some e)
    show ?thesis
    proof (cases "l_type e")
      case Like
      with Some e vid dv dl same show ?thesis
        by (auto simp: likeVideo_def videoReaction_read_def likeVideo_write_def Video_save_found
              deleteOne_filter delete_reaction_def react_def Let_def)
    next
      case Dislike
      with Some e vid dv dl same show ?thesis
        by (auto simp: likeVideo_def videoReaction_read_def likeVideo_write_def Video_save_found
              Like_save_type_found [OF e dl] update_kind_def react_def Let_def)
    qed
  qed
qed

lemma Comment_save_found:
  "find (\<lambda>x. c_id x = i) (Comments d) = Some x \<Longrightarrow> distinct (map c_id (Comments d)) \<Longrightarrow>
   Comment_save i upd d =
     Inr (d\<lparr>Comments := map (\<lambda>x. if c_id x = i then upd x else x) (Comments d)\<rparr>)"
  by (simp add: Comment_save_def updateOne_map)

lemma dislikeVideo_react:
  assumes "ids_ok d"
  shows "snd (dislikeVideo d u vid) =
     (if find (\<lambda>x. v_id x = vid) (Videos d) = None \<or>
         find_reaction d u (OnVideo vid) = None \<and> refused d (new_reaction d u (OnVideo vid) Dislike)
      then d else react d u (OnVideo vid) Dislike)"
proof (cases "find (\<lambda>x. v_id x = vid) (Videos d)")
  case None
  then show ?thesis by (simp add: dislikeVideo_def videoReaction_read_def)
next
  case (Some video)
  then have vid: "v_id video = vid" by (auto dest: find_SomeD)
  from assms have dv: "distinct (map v_id (Videos d))" and dl: "distinct (map l_id (Likes d))"
    by (simp_all add: ids_ok_def)
  from dv Some have same: "\<forall>x\<in>set (Videos d). v_id x = vid \<longrightarrow> x = video"
    using vid by (auto dest: find_id_unique)
  show ?thesis
  proof (cases "find (\<lambda>r. l_user r = u \<and> l_video r = Some vid) (Likes d)")
    case None
    with Some vid dv same show ?thesis
      by (auto simp: dislikeVideo_def videoReaction_read_def dislikeVideo_write_def Video_save_found
            Like_create_refused create_reaction_def react_def Let_def)
  next
    case e: (Some e)
    show ?thesis
    proof (cases "l_type e")
      case Dislike
      with Some e vid dv dl same show ?thesis
        by (auto simp: dislikeVideo_def videoReaction_read_def dislikeVideo_write_def Video_save_found
              deleteOne_filter delete_reaction_def react_def Let_def)
    next
      case Like
      with Some e vid dv dl same show ?thesis
        by (auto simp: dislikeVideo_def videoReaction_read_def dislikeVideo_write_def Video_save_found
              Like_save_type_found [OF e dl] update_kind_def react_def Let_def)
    qed
  qed
qed

lemma likeComment_react:
  assumes "ids_ok d"
  shows "snd (likeComment d u cid) =
     (if find (\<lambda>x. c_id x = cid) (Comments d) = None \<or>
         find_reaction d u (OnComment cid) = None \<and> refused d (new_reaction d u (OnComment cid) Like)
      then d else react d u (OnComment cid) Like)"
proof (cases "find (\<lambda>x. c_id x = cid) (Comments d)")
  case None
  then show ?thesis by (simp add: likeComment_def commentReaction_read_def)
next
  case (Some comment)
  then have cid: "c_id comment = cid" by (auto dest: find_SomeD)
  from assms have dv: "distinct (map c_id (Comments d))" and dl: "distinct (map l_id (Likes d))"
    by (simp_all add: ids_ok_def)
  from dv Some have same: "\<forall>x\<in>set (Comments d). c_id x = cid \<longrightarrow> x = comment"
    using cid by (auto dest: find_id_unique)
  show ?thesis
  proof (cases "find (\<lambda>r. l_user r = u \<and> l_comment r = Some cid) (Likes d)")
    case None
    with Some cid dv same show ?thesis
      by (auto simp: likeComment_def commentReaction_read_def likeComment_write_def Comment_save_found
            Like_create_refused create_reaction_def react_def Let_def)
  next
    case e: (Some e)
    show ?thesis
    proof (cases "l_type e")
      case Like
      with Some e cid dv dl same show ?thesis
        by (auto simp: likeComment_def commentReaction_read_def likeComment_write_def Comment_save_found
              deleteOne_filter delete_reaction_def react_def Let_def)
    next
      case Dislike
      with Some e cid dv dl same show ?thesis
        by (auto simp: likeComment_def commentReaction_read_def likeComment_write_def Comment_save_found
              Like_save_type_found [OF e dl] update_kind_def react_def Let_def)
    qed
  qed
qed

lemma dislikeComment_react:
  assumes "ids_ok d"
  shows "snd (dislikeComment d u cid) =
     (if find (\<lambda>x. c_id x = cid) (Comments d) = None \<or>
         find_reaction d u (OnComment cid) = None \<and> refused d (new_reaction d u (OnComment cid) Dislike)
      then d else react d u (OnComment cid) Dislike)"
proof (cases "find (\<lambda>x. c_id x = cid) (Comments d)")
  case None
  then show ?thesis by (simp add: dislikeComment_def commentReaction_read_def)
next
  case (Some comment)
  then have cid: "c_id comment = cid" by (auto dest: find_SomeD)
  from assms have dv: "distinct (map c_id (Comments d))" and dl: "distinct (map l_id (Likes d))"
    by (simp_all add: ids_ok_def)
  from dv Some have same: "\<forall>x\<in>set (Comments d). c_id x = cid \<longrightarrow> x = comment"
    using cid by (auto dest: find_id_unique)
  show ?thesis
  proof (cases "find (\<lambda>r. l_user r = u \<and> l_comment r = Some cid) (Likes d)")
    case None
    with Some cid dv same show ?thesis
      by (auto simp: dislikeComment_def commentReaction_read_def dislikeComment_write_def Comment_save_found
            Like_create_refused create_reaction_def react_def Let_def)
  next
    case e: (Some e)
    show ?thesis
    proof (cases "l_type e")
      case Dislike
      with Some e cid dv dl same show ?thesis
        by (auto simp: dislikeComment_def commentReaction_read_def dislikeComment_write_def Comment_save_found
              deleteOne_filter delete_reaction_def react_def Let_def)
    next
      case Like
      with Some e cid dv dl same show ?thesis
        by (auto simp: dislikeComment_def commentReaction_read_def dislikeComment_write_def Comment_save_found
              Like_save_type_found [OF e dl] update_kind_def react_def Let_def)
    qed
  qed
qed

lemma handle_react:
  assumes "ids_ok d"
  shows "snd (handle d (react_request k u t)) =
     (if target_counters d t = None \<or>
         find_reaction d u t = None \<and> refused d (new_reaction d u t k)
      then d else react d u t k)"
proof (cases t)
  case (OnVideo v)
  show ?thesis
  proof (cases k)
    case Like
    with OnVideo likeVideo_react [OF assms, of u v] show ?thesis by simp
  next
    case Dislike
    with OnVideo dislikeVideo_react [OF assms, of u v] show ?thesis by simp
  qed
next
  case (OnComment c)
  show ?thesis
  proof (cases k)
    case Like
    with OnComment likeComment_react [OF assms, of u c] show ?thesis by simp
  next
    case Dislike
    with OnComment dislikeComment_react [OF assms, of u c] show ?thesis by simp
  qed
qed

lemma likeVideo_status:
  assumes "ids_ok d"
  shows "fst (fst (likeVideo d u vid)) =
     (if find (\<lambda>x. v_id x = vid) (Videos d) = None then 404
      else if find_reaction d u (OnVideo vid) = None \<and>
              refused d (new_reaction d u (OnVideo vid) Like) then 500
      else 200)"
proof (cases "find (\<lambda>x. v_id x = vid) (Videos d)")
  case None
  then show ?thesis by (simp add: likeVideo_def videoReaction_read_def)
next
  case (Some video)
  then have vid: "v_id video = vid" by (auto dest: find_SomeD)
  from assms have dv: "distinct (map v_id (Videos d))" and dl: "distinct (map l_id (Likes d))"
    by (simp_all add: ids_ok_def)
  show ?thesis
  proof (cases "find (\<lambda>r. l_user r = u \<and> l_video r = Some vid) (Likes d)")
    case None
    with Some vid dv show ?thesis
      by (auto simp: likeVideo_def videoReaction_read_def likeVideo_write_def Video_save_found
            Like_create_refused create_reaction_def server_error_def Let_def)
  next
    case e: (Some e)
    show ?thesis
    proof (cases "l_type e")
      case Like
      with Some e vid dv dl show ?thesis
        by (auto simp: likeVideo_def videoReaction_read_def likeVideo_write_def Video_save_found
              Let_def)
    next
      case Dislike
      with Some e vid dv dl show ?thesis
        by (auto simp: likeVideo_def videoReaction_read_def likeVideo_write_def Video_save_found
              Like_save_type_found [OF e dl] Let_def)
    qed
  qed
qed

lemma dislikeVideo_status:
  assumes "ids_ok d"
  shows "fst (fst (dislikeVideo d u vid)) =
     (if find (\<lambda>x. v_id x = vid) (Videos d) = None then 404
      else if find_reaction d u (OnVideo vid) = None \<and>
              refused d (new_reaction d u (OnVideo vid) Dislike) then 500
      else 200)"
proof (cases "find (\<lambda>x. v_id x = vid) (Videos d)")
  case None
  then show ?thesis by (simp add: dislikeVideo_def videoReaction_read_def)
next
  case (Some video)
  then have vid: "v_id video = vid" by (auto dest: find_SomeD)
  from assms have dv: "distinct (map v_id (Videos d))" and dl: "distinct (map l_id (Likes d))"
    by (simp_all add: ids_ok_def)
  show ?thesis
  proof (cases "find (\<lambda>r. l_user r = u \<and> l_video r = Some vid) (Likes d)")
    case None
    with Some vid dv show ?thesis
      by (auto simp: dislikeVideo_def videoReaction_read_def dislikeVideo_write_def Video_save_found
            Like_create_refused create_reaction_def server_error_def Let_def)
  next
    case e: (Some e)
    show ?thesis
    proof (cases "l_type e")
      case Dislike
      with Some e vid dv dl show ?thesis
        by (auto simp: dislikeVideo_def videoReaction_read_def dislikeVideo_write_def Video_save_found
              Let_def)
    next
      case Like
      with Some e vid dv dl show ?thesis
        by (auto simp: dislikeVideo_def videoReaction_read_def dislikeVideo_write_def Video_save_found
              Like_save_type_found [OF e dl] Let_def)
    qed
  qed
qed


lemma likeComment_status:
  assumes "ids_ok d"
  shows "fst (fst (likeComment d u cid)) =
     (if find (\<lambda>x. c_id x = cid) (Comments d) = None then 404
      else if find_reaction d u (OnComment cid) = None \<and>
              refused d (new_reaction d u (OnComment cid) Like) then 500
      else 200)"
proof (cases "find (\<lambda>x. c_id x = cid) (Comments d)")
  case None
  then show ?thesis by (simp add: likeComment_def commentReaction_read_def)
next
  case (Some comment)
  then have cid: "c_id comment = cid" by (auto dest: find_SomeD)
  from assms have dv: "distinct (map c_id (Comments d))" and dl: "distinct (map l_id (Likes d))"
    by (simp_all add: ids_ok_def)
  show ?thesis
  proof (cases "find (\<lambda>r. l_user r = u \<and> l_comment r = Some cid) (Likes d)")
    case None
    with Some cid dv show ?thesis
      by (auto simp: likeComment_def commentReaction_read_def likeComment_write_def Comment_save_found
            Like_create_refused create_reaction_def server_error_def Let_def)
  next
    case e: (Some e)
    show ?thesis
    proof (cases "l_type e")
      case Like
      with Some e cid dv dl show ?thesis
        by (auto simp: likeComment_def commentReaction_read_def likeComment_write_def Comment_save_found
              Let_def)
    next
      case Dislike
      with Some e cid dv dl show ?thesis
        by (auto simp: likeComment_def commentReaction_read_def likeComment_write_def Comment_save_found
              Like_save_type_found [OF e dl] Let_def)
    qed
  qed
qed


lemma dislikeComment_status:
  assumes "ids_ok d"
  shows "fst (fst (dislikeComment d u cid)) =
     (if find (\<lambda>x. c_id x = cid) (Comments d) = None then 404
      else if find_reaction d u (OnComment cid) = None \<and>
              refused d (new_reaction d u (OnComment cid) Dislike) then 500
      else 200)"
proof (cases "find (\<lambda>x. c_id x = cid) (Comments d)")
  case None
  then show ?thesis by (simp add: dislikeComment_def commentReaction_read_def)
next
  case (Some comment)
  then have cid: "c_id comment = cid" by (auto dest: find_SomeD)
  from assms have dv: "distinct (map c_id (Comments d))" and dl: "distinct (map l_id (Likes d))"
    by (simp_all add: ids_ok_def)
  show ?thesis
  proof (cases "find (\<lambda>r. l_user r = u \<and> l_comment r = Some cid) (Likes d)")
    case None
    with Some cid dv show ?thesis
      by (auto simp: dislikeComment_def commentReaction_read_def dislikeComment_write_def Comment_save_found
            Like_create_refused create_reaction_def server_error_def Let_def)
  next
    case e: (Some e)
    show ?thesis
    proof (cases "l_type e")
      case Dislike
      with Some e cid dv dl show ?thesis
        by (auto simp: dislikeComment_def commentReaction_read_def dislikeComment_write_def Comment_save_found
              Let_def)
    next
      case Like
      with Some e cid dv dl show ?thesis
        by (auto simp: dislikeComment_def commentReaction_read_def dislikeComment_write_def Comment_save_found
              Like_save_type_found [OF e dl] Let_def)
    qed
  qed
qed



lemma handle_react_status:
  assumes "ids_ok d"
  shows "fst (fst (handle d (react_request k u t))) =
     (if target_counters d t = None then 404
      else if find_reaction d u t = None \<and> refused d (new_reaction d u t k) then 500
      else 200)"
proof (cases t)
  case (OnVideo v)
  show ?thesis
  proof (cases k)
    case Like
    with OnVideo likeVideo_status [OF assms, of u v] show ?thesis by simp
  next
    case Dislike
    with OnVideo dislikeVideo_status [OF assms, of u v] show ?thesis by simp
  qed
next
  case (OnComment c)
  show ?thesis
  proof (cases k)
    case Like
    with OnComment likeComment_status [OF assms, of u c] show ?thesis by simp
  next
    case Dislike
    with OnComment dislikeComment_status [OF assms, of u c] show ?thesis by simp
  qed
qed

section \<open>The state machine keeps the invariant\<close>

lemma comp_if_update:
  "(\<And>x. f (g x) = f x) \<Longrightarrow> f \<circ> (\<lambda>x. if P x then g x else x) = f"
  by (auto simp: fun_eq_iff)

lemma Likes_adjust [simp]: "Likes (adjust t a b d) = Likes d"
  by (cases t) simp_all

lemma nextId_adjust [simp]: "nextId (adjust t a b d) = nextId d"
  by (cases t) simp_all

lemma video_ids_adjust [simp]: "map v_id (Videos (adjust t a b d)) = map v_id (Videos d)"
  by (cases t) (simp_all add: comp_if_update)

lemma comment_ids_adjust [simp]: "map c_id (Comments (adjust t a b d)) = map c_id (Comments d)"
  by (cases t) (simp_all add: comp_if_update)

lemma ids_ok_alt:
  "ids_ok d =
     (distinct (map v_id (Videos d)) \<and> distinct (map c_id (Comments d)) \<and>
      distinct (map l_id (Likes d)) \<and>
      (\<forall>i\<in>set (map v_id (Videos d)). i < nextId d) \<and>
      (\<forall>i\<in>set (map c_id (Comments d)). i < nextId d) \<and>
      (\<forall>i\<in>set (map l_id (Likes d)). i < nextId d))"
  unfolding ids_ok_def by simp

lemma refs_ok_alt:
  "refs_ok d =
     (\<forall>r\<in>set (Likes d). one_target r \<and>
        (\<forall>v. l_video r = Some v \<longrightarrow> v \<in> set (map v_id (Videos d))) \<and>
        (\<forall>c. l_comment r = Some c \<longrightarrow> c < nextId d))"
  unfolding refs_ok_def by simp

lemma ids_ok_adjust: "ids_ok d \<Longrightarrow> ids_ok (adjust t a b d)"
  unfolding ids_ok_alt by simp

lemma refs_ok_adjust: "refs_ok d \<Longrightarrow> refs_ok (adjust t a b d)"
  unfolding refs_ok_alt by simp

lemma keys_ok_adjust: "keys_ok d \<Longrightarrow> keys_ok (adjust t a b d)"
  unfolding keys_ok_def by simp

lemma ids_ok_delete: "ids_ok d \<Longrightarrow> ids_ok (delete_reaction i d)"
  unfolding ids_ok_def delete_reaction_def by (simp add: distinct_map_filter)

lemma refs_ok_delete: "refs_ok d \<Longrightarrow> refs_ok (delete_reaction i d)"
  unfolding refs_ok_def delete_reaction_def by auto

lemma keys_ok_delete: "keys_ok d \<Longrightarrow> keys_ok (delete_reaction i d)"
  unfolding keys_ok_def delete_reaction_def by (simp add: distinct_map_filter)

lemma ids_ok_update: "ids_ok d \<Longrightarrow> ids_ok (update_kind i k d)"
  unfolding ids_ok_alt update_kind_def by (simp add: comp_if_update)

lemma refs_ok_update: "refs_ok d \<Longrightarrow> refs_ok (update_kind i k d)"
  unfolding refs_ok_def update_kind_def by (auto simp: one_target_def)

lemma keys_ok_update: "keys_ok d \<Longrightarrow> keys_ok (update_kind i k d)"
  unfolding keys_ok_def update_kind_def by (simp add: comp_if_update)

lemma ids_ok_create: "ids_ok d \<Longrightarrow> l_id r = nextId d \<Longrightarrow> ids_ok (create_reaction r d)"
  unfolding ids_ok_def create_reaction_def by (auto simp: less_Suc_eq)

lemma refs_ok_create:
  "refs_ok d \<Longrightarrow> target_counters d t \<noteq> None \<Longrightarrow> ids_ok d \<Longrightarrow>
   refs_ok (create_reaction (new_reaction d u t k) d)"
  unfolding refs_ok_def create_reaction_def ids_ok_def
  by (cases t) (auto simp: one_target_def less_Suc_eq find_None_iff)

lemma keys_ok_create: "keys_ok d \<Longrightarrow> \<not> refused d r \<Longrightarrow> keys_ok (create_reaction r d)"
  unfolding keys_ok_def create_reaction_def refused_eq by simp

lemma react_counters_ok:
  assumes inv: "invariant d"
  shows "counters_ok (react d u t k)"
proof -
  from inv have dl: "distinct (map l_id (Likes d))" and co: "counters_ok d" and ro: "refs_ok d"
    by (simp_all add: invariant_def ids_ok_def)
  show ?thesis
  proof (cases "find_reaction d u t")
    case None
    with co show ?thesis
      by (cases t; cases k)
         (auto simp: react_def counters_ok_def create_reaction_def)
  next
    case (Some e)
    show ?thesis
    proof (cases t)
      case (OnVideo v)
      with Some have e: "e \<in> set (Likes d)" "l_video e = Some v"
        by (auto dest: find_SomeD)
      with ro have "l_comment e = None" by (auto simp: refs_ok_def one_target_def)
      with Some OnVideo co e dl show ?thesis
        by (cases k; cases "l_type e")
           (auto simp: react_def counters_ok_def delete_reaction_def update_kind_def
              vr_filter_id cr_filter_id vr_map_type cr_map_type)
    next
      case (OnComment c)
      with Some have e: "e \<in> set (Likes d)" "l_comment e = Some c"
        by (auto dest: find_SomeD)
      with ro have "l_video e = None" by (auto simp: refs_ok_def one_target_def)
      with Some OnComment co e dl show ?thesis
        by (cases k; cases "l_type e")
           (auto simp: react_def counters_ok_def delete_reaction_def update_kind_def
              vr_filter_id cr_filter_id vr_map_type cr_map_type)
    qed
  qed
qed

lemma react_invariant:
  assumes "invariant d" "target_counters d t \<noteq> None"
    "\<not> (find_reaction d u t = None \<and> refused d (new_reaction d u t k))"
  shows "invariant (react d u t k)"
proof -
  from assms(1) have i: "ids_ok d" and r: "refs_ok d" and ky: "keys_ok d"
    by (simp_all add: invariant_def)
  have nid: "l_id (new_reaction d u t k) = nextId d" for k by (cases t) simp_all
  have "ids_ok (react d u t k) \<and> refs_ok (react d u t k) \<and> keys_ok (react d u t k)"
  proof (cases "find_reaction d u t")
    case None
    with assms(3) have nr: "\<not> refused d (new_reaction d u t k)" by simp
    from None i r ky assms(2) nr nid show ?thesis
      by (cases k)
         (simp_all add: react_def ids_ok_adjust refs_ok_adjust keys_ok_adjust
            ids_ok_create refs_ok_create keys_ok_create)
  next
    case (Some e)
    with i r ky show ?thesis
      by (cases k; cases "l_type e")
         (simp_all add: react_def ids_ok_adjust refs_ok_adjust keys_ok_adjust
            ids_ok_delete refs_ok_delete keys_ok_delete
            ids_ok_update refs_ok_update keys_ok_update)
  qed
  with react_counters_ok [OF assms(1)] show ?thesis by (simp add: invariant_def)
qed

section \<open>The other requests keep the invariant\<close>

lemma vr_zero: "\<forall>r\<in>set rows. l_video r \<noteq> Some v \<Longrightarrow> video_reactions k v rows = 0"
  by (simp add: video_reactions_def)

lemma cr_zero: "\<forall>r\<in>set rows. l_comment r \<noteq> Some c \<Longrightarrow> comment_reactions k c rows = 0"
  by (simp add: comment_reactions_def)

lemma vr_fresh: "ids_ok d \<Longrightarrow> refs_ok d \<Longrightarrow> video_reactions k (nextId d) (Likes d) = 0"
  by (rule vr_zero) (force simp: ids_ok_def refs_ok_def)

lemma cr_fresh: "refs_ok d \<Longrightarrow> comment_reactions k (nextId d) (Likes d) = 0"
  by (rule cr_zero) (force simp: refs_ok_def)

lemma postVideo_invariant:
  assumes "invariant d"
  shows "invariant (snd (postVideo d u valid files))"
proof -
  from assms have "ids_ok d" "refs_ok d" by (simp_all add: invariant_def)
  then have z: "video_reactions k (nextId d) (Likes d) = 0" for k by (rule vr_fresh)
  from assms z show ?thesis
    unfolding invariant_def postVideo_def ids_ok_def refs_ok_def keys_ok_def counters_ok_def
    by (auto simp: Let_def less_Suc_eq)
qed

lemma postComment_invariant:
  assumes "invariant d"
  shows "invariant (snd (postComment d u vid valid))"
proof -
  from assms have "refs_ok d" by (simp add: invariant_def)
  then have z: "comment_reactions k (nextId d) (Likes d) = 0" for k by (rule cr_fresh)
  from assms z show ?thesis
    unfolding invariant_def postComment_def ids_ok_def refs_ok_def keys_ok_def counters_ok_def
    by (auto simp: Let_def less_Suc_eq split: option.splits)
qed

lemma getVideo_invariant:
  assumes "invariant d"
  shows "invariant (snd (getVideo d vid))"
proof (cases "find (\<lambda>x. v_id x = vid) (Videos d)")
  case None
  with assms show ?thesis by (simp add: getVideo_def)
next
  case (Some video)
  then have vid: "v_id video = vid" by (auto dest: find_SomeD)
  from assms have dv: "distinct (map v_id (Videos d))" by (simp add: invariant_def ids_ok_def)
  from assms Some vid show ?thesis
    unfolding invariant_def ids_ok_alt refs_ok_alt keys_ok_def counters_ok_def
    by (auto simp: getVideo_def Let_def Video_save_found [OF _ dv] comp_if_update)
qed

lemma map_updateOne_key: "(\<And>x. f (g x) = f x) \<Longrightarrow> map f (updateOne P g xs) = map f xs"
  by (induction xs) auto

lemma set_updateOne_subset: "set (updateOne P g xs) \<subseteq> set xs \<union> g ` set xs"
  by (induction xs) auto

lemma in_set_updateOneD:
  "x \<in> set (updateOne P g xs) \<Longrightarrow> x \<in> set xs \<or> (\<exists>y\<in>set xs. x = g y)"
  using set_updateOne_subset [of P g xs] by auto

lemma vr_delete_video:
  "video_reactions k v (deleteMany (\<lambda>r. l_video r = Some v') rows) =
   (if v = v' then 0 else video_reactions k v rows)"
proof -
  have "v \<noteq> v' \<Longrightarrow>
        filter (\<lambda>r. l_video r = Some v \<and> l_type r = k) (filter (\<lambda>r. l_video r \<noteq> Some v') rows) =
        filter (\<lambda>r. l_video r = Some v \<and> l_type r = k) rows"
    by (induction rows) auto
  then show ?thesis by (auto simp: video_reactions_def deleteMany_def)
qed

lemma cr_delete_comment:
  "comment_reactions k c (deleteMany (\<lambda>r. l_comment r = Some c') rows) =
   (if c = c' then 0 else comment_reactions k c rows)"
proof -
  have "c \<noteq> c' \<Longrightarrow>
        filter (\<lambda>r. l_comment r = Some c \<and> l_type r = k) (filter (\<lambda>r. l_comment r \<noteq> Some c') rows) =
        filter (\<lambda>r. l_comment r = Some c \<and> l_type r = k) rows"
    by (induction rows) auto
  then show ?thesis by (auto simp: comment_reactions_def deleteMany_def)
qed

lemma cr_delete_video:
  "\<forall>r\<in>set rows. one_target r \<Longrightarrow>
   comment_reactions k c (deleteMany (\<lambda>r. l_video r = Some v) rows) = comment_reactions k c rows"
proof -
  assume "\<forall>r\<in>set rows. one_target r"
  then have "filter (\<lambda>r. l_comment r = Some c \<and> l_type r = k) (filter (\<lambda>r. l_video r \<noteq> Some v) rows) =
        filter (\<lambda>r. l_comment r = Some c \<and> l_type r = k) rows"
    by (induction rows) (auto simp: one_target_def)
  then show ?thesis by (simp add: comment_reactions_def deleteMany_def)
qed

lemma vr_delete_comment:
  "\<forall>r\<in>set rows. one_target r \<Longrightarrow>
   video_reactions k v (deleteMany (\<lambda>r. l_comment r = Some c) rows) = video_reactions k v rows"
proof -
  assume "\<forall>r\<in>set rows. one_target r"
  then have "filter (\<lambda>r. l_video r = Some v \<and> l_type r = k) (filter (\<lambda>r. l_comment r \<noteq> Some c) rows) =
        filter (\<lambda>r. l_video r = Some v \<and> l_type r = k) rows"
    by (induction rows) (auto simp: one_target_def)
  then show ?thesis by (simp add: video_reactions_def deleteMany_def)
qed

lemma deleteVideo_invariant:
  assumes "invariant d"
  shows "invariant (snd (deleteVideo d u vid))"
proof (cases "find (\<lambda>x. v_id x = vid) (Videos d)")
  case None
  with assms show ?thesis by (simp add: deleteVideo_def)
next
  case (Some video)
  then have vid: "v_id video = vid" by (auto dest: find_SomeD)
  from assms have dv: "distinct (map v_id (Videos d))" by (simp add: invariant_def ids_ok_def)
  from assms have ot: "\<forall>r\<in>set (Likes d). one_target r" by (simp add: invariant_def refs_ok_def)
  show ?thesis
  proof (cases "v_user video = u")
    case False
    with Some assms show ?thesis by (simp add: deleteVideo_def)
  next
    case True
    let ?d' = "d\<lparr>Comments := deleteMany (\<lambda>c. c_video c = vid) (Comments d),
                  Likes := deleteMany (\<lambda>r. l_video r = Some vid) (Likes d),
                  Videos := filter (\<lambda>x. v_id x \<noteq> vid) (Videos d)\<rparr>"
    from True Some vid dv have eq: "snd (deleteVideo d u vid) = ?d'"
      by (simp add: deleteVideo_def deleteOne_filter)
    from assms have "ids_ok ?d'"
      by (simp add: invariant_def ids_ok_def deleteMany_def distinct_map_filter)
    moreover from assms have "refs_ok ?d'"
      by (auto simp: invariant_def refs_ok_def deleteMany_def)
    moreover from assms have "keys_ok ?d'"
      by (simp add: invariant_def keys_ok_def deleteMany_def distinct_map_filter)
    moreover from assms ot have "counters_ok ?d'"
      by (auto simp: invariant_def counters_ok_def vr_delete_video cr_delete_video)
         (auto simp: deleteMany_def)
    ultimately show ?thesis by (simp add: eq invariant_def)
  qed
qed

lemma deleteComment_invariant:
  assumes "invariant d"
  shows "invariant (snd (deleteComment d u cid))"
proof (cases "find (\<lambda>c. c_id c = cid) (Comments d)")
  case None
  with assms show ?thesis by (simp add: deleteComment_def)
next
  case (Some comment)
  then have cid: "c_id comment = cid" by (auto dest: find_SomeD)
  from assms have dc: "distinct (map c_id (Comments d))" by (simp add: invariant_def ids_ok_def)
  from assms have ot: "\<forall>r\<in>set (Likes d). one_target r" by (simp add: invariant_def refs_ok_def)
  show ?thesis
  proof (cases "c_user comment = u")
    case False
    with Some assms show ?thesis by (simp add: deleteComment_def)
  next
    case True
    define cs1 where "cs1 =
       (if \<not> c_isReply comment
        then deleteMany (\<lambda>c. c_parentComment c = Some cid) (Comments d)
        else updateOne (\<lambda>c. Some (c_id c) = c_parentComment comment)
               (\<lambda>c. c\<lparr>c_replies := removeAll cid (c_replies c)\<rparr>) (Comments d))"
    let ?d' = "d\<lparr>Comments := filter (\<lambda>c. c_id c \<noteq> cid) cs1,
                  Likes := deleteMany (\<lambda>r. l_comment r = Some cid) (Likes d)\<rparr>"
    have ids1: "distinct (map c_id cs1)" "\<forall>c\<in>set cs1. c_id c < nextId d"
      using assms unfolding cs1_def invariant_def ids_ok_def
      by (auto simp: deleteMany_def distinct_map_filter map_updateOne_key dest!: in_set_updateOneD)
    have cnt1: "\<forall>c\<in>set cs1. c_likes c = comment_reactions Like (c_id c) (Likes d) \<and>
                 c_dislikes c = comment_reactions Dislike (c_id c) (Likes d)"
      using assms unfolding cs1_def invariant_def counters_ok_def
      by (auto simp: deleteMany_def dest!: in_set_updateOneD)
    from ids1(1) have df: "deleteOne (\<lambda>c. c_id c = cid) cs1 = filter (\<lambda>c. c_id c \<noteq> cid) cs1"
      by (rule deleteOne_filter)
    from True Some cid have "snd (deleteComment d u cid) =
        d\<lparr>Comments := deleteOne (\<lambda>c. c_id c = cid) cs1,
          Likes := deleteMany (\<lambda>r. l_comment r = Some cid) (Likes d)\<rparr>"
      by (simp add: deleteComment_def cs1_def Let_def)
    with df have eq: "snd (deleteComment d u cid) = ?d'" by simp
    from assms ids1 have "ids_ok ?d'"
      by (simp add: invariant_def ids_ok_def deleteMany_def distinct_map_filter)
    moreover from assms have "refs_ok ?d'"
      by (auto simp: invariant_def refs_ok_def deleteMany_def)
    moreover from assms have "keys_ok ?d'"
      by (simp add: invariant_def keys_ok_def deleteMany_def distinct_map_filter)
    moreover from assms ot cnt1 have "counters_ok ?d'"
      by (auto simp: invariant_def counters_ok_def vr_delete_comment cr_delete_comment)
    ultimately show ?thesis by (simp add: eq invariant_def)
  qed
qed

lemma postReply_invariant:
  assumes "invariant d"
  shows "invariant (snd (postReply d u cid valid))"
proof (cases "valid \<and> find (\<lambda>c. c_id c = cid) (Comments d) \<noteq> None")
  case False
  with assms show ?thesis by (auto simp: postReply_def)
next
  case True
  then obtain parent where p: "find (\<lambda>c. c_id c = cid) (Comments d) = Some parent" and v: valid
    by auto
  then have cid: "c_id parent = cid" by (auto dest: find_SomeD)
  define reply where "reply = \<lparr>c_id = nextId d, c_user = u, c_video = c_video parent,
                           c_likes = 0, c_dislikes = 0, c_replies = [], c_isReply = True,
                           c_parentComment = Some cid\<rparr>"
  let ?cs = "updateOne (\<lambda>c. c_id c = cid) (\<lambda>c. c\<lparr>c_replies := c_replies c @ [nextId d]\<rparr>)
               (Comments d @ [reply])"
  let ?d' = "d\<lparr>Comments := ?cs, nextId := Suc (nextId d)\<rparr>"
  from p have "parent \<in> set (Comments d)" by (simp add: find_SomeD)
  with cid have "find (\<lambda>c. c_id c = cid) (Comments d @ [reply]) \<noteq> None"
    by (auto simp: find_None_iff)
  with p v cid have eq: "snd (postReply d u cid valid) = ?d'"
    by (auto simp: postReply_def Let_def Comment_save_def reply_def)
  from assms have "refs_ok d" by (simp add: invariant_def)
  then have z: "comment_reactions k (nextId d) (Likes d) = 0" for k by (rule cr_fresh)
  have ids: "map c_id ?cs = map c_id (Comments d) @ [nextId d]"
    by (simp add: map_updateOne_key reply_def)
  from assms have "ids_ok ?d'"
    unfolding invariant_def ids_ok_alt by (auto simp: ids less_Suc_eq)
  moreover from assms have "refs_ok ?d'"
    by (auto simp: invariant_def refs_ok_def less_Suc_eq)
  moreover from assms have "keys_ok ?d'"
    by (simp add: invariant_def keys_ok_def)
  moreover from assms z have "counters_ok ?d'"
    unfolding invariant_def counters_ok_def
    by (auto simp: reply_def dest!: in_set_updateOneD)
  ultimately show ?thesis by (simp add: eq invariant_def)
qed

lemma handle_invariant:
  assumes "invariant d"
  shows "invariant (snd (handle d q))"
proof -
  have r: "invariant (snd (handle d (react_request k u t)))" for k u t
    using handle_react [of d k u t] react_invariant [OF assms, of t u k] assms
    by (auto simp: invariant_def)
  show ?thesis
  proof (cases q)
    case (LikeVideo u v)
    with r [of Like u "OnVideo v"] show ?thesis by simp
  next
    case (DislikeVideo u v)
    with r [of Dislike u "OnVideo v"] show ?thesis by simp
  next
    case (LikeComment u c)
    with r [of Like u "OnComment c"] show ?thesis by simp
  next
    case (DislikeComment u c)
    with r [of Dislike u "OnComment c"] show ?thesis by simp
  qed (use assms in \<open>simp_all add: postVideo_invariant getVideo_invariant postComment_invariant
         postReply_invariant deleteVideo_invariant deleteComment_invariant\<close>)
qed

lemma invariant_empty: "invariant empty_db"
  by (simp add: invariant_def empty_db_def ids_ok_def refs_ok_def keys_ok_def counters_ok_def)

lemma reachable_invariant: "reachable d \<Longrightarrow> invariant d"
  by (induction rule: reachable.induct) (simp_all add: invariant_empty handle_invariant)

lemma reachable_run: "reachable d \<Longrightarrow> reachable (run d qs)"
  by (induction qs arbitrary: d) (simp_all add: reachable.step)

section \<open>Reacting twice\<close>

lemma find_snoc:
  "find P (xs @ [x]) = (case find P xs of None \<Rightarrow> (if P x then Some x else None) | Some y \<Rightarrow> Some y)"
  by (induction xs) auto

lemma find_map_key:
  "(\<And>x. P (h x) = P x) \<Longrightarrow> find P (map h xs) = map_option h (find P xs)"
  by (induction xs) auto

lemma target_counters_adjust:
  "target_counters (adjust t a b d) t =
   map_option (\<lambda>(l, dl). (l + a, dl + b)) (target_counters d t)"
proof (cases t)
  case (OnVideo v)
  have "find (\<lambda>x. v_id x = v)
          (map (\<lambda>x. if v_id x = v then x\<lparr>v_likes := v_likes x + a, v_dislikes := v_dislikes x + b\<rparr> else x)
             (Videos d)) =
        map_option (\<lambda>x. if v_id x = v then x\<lparr>v_likes := v_likes x + a, v_dislikes := v_dislikes x + b\<rparr> else x)
          (find (\<lambda>x. v_id x = v) (Videos d))"
    by (rule find_map_key) simp
  with OnVideo show ?thesis
    by (cases "find (\<lambda>x. v_id x = v) (Videos d)") (auto dest: find_SomeD)
next
  case (OnComment c)
  have "find (\<lambda>x. c_id x = c)
          (map (\<lambda>x. if c_id x = c then x\<lparr>c_likes := c_likes x + a, c_dislikes := c_dislikes x + b\<rparr> else x)
             (Comments d)) =
        map_option (\<lambda>x. if c_id x = c then x\<lparr>c_likes := c_likes x + a, c_dislikes := c_dislikes x + b\<rparr> else x)
          (find (\<lambda>x. c_id x = c) (Comments d))"
    by (rule find_map_key) simp
  with OnComment show ?thesis
    by (cases "find (\<lambda>x. c_id x = c) (Comments d)") (auto dest: find_SomeD)
qed

lemma target_counters_Likes [simp]:
  "target_counters (d\<lparr>Likes := rows\<rparr>) t = target_counters d t"
  "target_counters (d\<lparr>nextId := n\<rparr>) t = target_counters d t"
  by (cases t; simp)+

lemma find_reaction_adjust [simp]: "find_reaction (adjust t' a b d) u t = find_reaction d u t"
  by (cases t; cases t'; simp)

lemma find_reaction_created:
  "find_reaction d u t = None \<Longrightarrow>
   find_reaction (create_reaction (new_reaction d u t k) d) u t = Some (new_reaction d u t k)"
  by (cases t) (simp_all add: create_reaction_def find_snoc)

lemma new_reaction_simps [simp]:
  "l_id (new_reaction d u t k) = nextId d" "l_type (new_reaction d u t k) = k"
  by (cases t; simp)+

lemma delete_created:
  assumes "ids_ok d" and that: "l_id r = nextId d"
  shows "delete_reaction (nextId d) (adjust t a b (create_reaction r d)) =
         adjust t a b (d\<lparr>nextId := Suc (nextId d)\<rparr>)"
proof -
  from assms have "filter (\<lambda>x. l_id x \<noteq> nextId d) (Likes d) = Likes d"
    by (auto simp: ids_ok_def filter_id_conv)
  with that show ?thesis
    by (cases t) (simp_all add: delete_reaction_def create_reaction_def)
qed

lemma toggle_twice_aux:
  assumes "reachable d" "target_counters d t \<noteq> None" "find_reaction d u t = None"
  shows "find_reaction (run d [react_request k u t, react_request k u t]) u t = None \<and>
         target_counters (run d [react_request k u t, react_request k u t]) t = target_counters d t"
proof -
  let ?q = "react_request k u t"
  let ?new = "new_reaction d u t k"
  from assms(1) have inv: "invariant d" by (rule reachable_invariant)
  then have ids: "ids_ok d" by (simp add: invariant_def)
  show ?thesis
  proof (cases "refused d ?new")
    case True
    with assms ids have "snd (handle d ?q) = d" by (auto simp: handle_react)
    with assms show ?thesis by simp
  next
    case False
    let ?d1 = "react d u t k"
    from False assms ids have d1: "snd (handle d ?q) = ?d1" by (auto simp: handle_react)
    from assms(3) have r1: "?d1 = adjust t (if k = Like then 1 else 0) (if k = Like then 0 else 1)
                                  (create_reaction ?new d)"
      by (cases k) (simp_all add: react_def)
    from inv assms(2) False have "invariant ?d1" by (simp add: react_invariant)
    then have ids1: "ids_ok ?d1" by (simp add: invariant_def)
    from assms(3) have f1: "find_reaction ?d1 u t = Some ?new"
      by (simp add: r1 find_reaction_created)
    from assms(2) have t1: "target_counters ?d1 t \<noteq> None"
      by (simp add: r1 target_counters_adjust create_reaction_def)
    from ids1 f1 t1 have d2: "snd (handle ?d1 ?q) = react ?d1 u t k" by (auto simp: handle_react)
    have r2: "react ?d1 u t k = adjust t (if k = Like then - 1 else 0) (if k = Like then 0 else - 1)
                (delete_reaction (nextId d) ?d1)"
      using f1 by (cases k) (simp_all add: react_def)
    have del: "delete_reaction (nextId d) ?d1 =
               adjust t (if k = Like then 1 else 0) (if k = Like then 0 else 1) (d\<lparr>nextId := Suc (nextId d)\<rparr>)"
      unfolding r1 using ids by (rule delete_created) simp
    have run: "run d [?q, ?q] = react ?d1 u t k" by (simp add: d1 d2)
    from assms(3) have "find_reaction (react ?d1 u t k) u t = None"
      unfolding r2 del by (cases t) simp_all
    moreover have "target_counters (react ?d1 u t k) t = target_counters d t"
      unfolding r2 del by (cases "target_counters d t") (auto simp: target_counters_adjust)
    ultimately show ?thesis by (simp only: run)
  qed
qed

lemma toggle_twice_accepted:
  assumes "reachable d" "target_counters d t = Some (l, dl)" "find_reaction d u t = None"
    and acc: "\<not> refused d (new_reaction d u t k)"
  shows "fst (fst (handle d (react_request k u t))) = 200 \<and>
         map_option l_type (find_reaction (run d [react_request k u t]) u t) = Some k \<and>
         target_counters (run d [react_request k u t]) t =
           Some (l + (if k = Like then 1 else 0), dl + (if k = Dislike then 1 else 0)) \<and>
         fst (fst (handle (run d [react_request k u t]) (react_request k u t))) = 200 \<and>
         find_reaction (run d [react_request k u t, react_request k u t]) u t = None \<and>
         target_counters (run d [react_request k u t, react_request k u t]) t = Some (l, dl)"
proof -
  let ?q = "react_request k u t"
  let ?new = "new_reaction d u t k"
  let ?d1 = "react d u t k"
  from assms(1) have inv: "invariant d" by (rule reachable_invariant)
  then have ids: "ids_ok d" by (simp add: invariant_def)
  from assms(2) have ex: "target_counters d t \<noteq> None" by simp
  from acc ex ids have s1: "fst (fst (handle d ?q)) = 200" by (simp add: handle_react_status)
  from acc ex ids have d1: "snd (handle d ?q) = ?d1" by (auto simp: handle_react)
  from assms(3) have r1: "?d1 = adjust t (if k = Like then 1 else 0) (if k = Dislike then 1 else 0)
                                (create_reaction ?new d)"
    by (cases k) (simp_all add: react_def)
  from inv ex acc have "invariant ?d1" by (simp add: react_invariant)
  then have ids1: "ids_ok ?d1" by (simp add: invariant_def)
  from assms(3) have f1: "find_reaction ?d1 u t = Some ?new"
    by (simp add: r1 find_reaction_created)
  from assms(2) have t1: "target_counters ?d1 t =
      Some (l + (if k = Like then 1 else 0), dl + (if k = Dislike then 1 else 0))"
    by (simp add: r1 target_counters_adjust create_reaction_def)
  from ids1 f1 t1 have s2: "fst (fst (handle ?d1 ?q)) = 200" by (simp add: handle_react_status)
  from toggle_twice_aux [OF assms(1) ex assms(3), of k] assms(2)
  have e: "find_reaction (run d [?q, ?q]) u t = None"
    "target_counters (run d [?q, ?q]) t = Some (l, dl)" by simp_all
  have run1: "run d [?q] = ?d1" by (simp add: d1)
  from s1 s2 f1 t1 e show ?thesis by (simp only: run1) simp
qed

section \<open>No decrement is guarded\<close>

text \<open>
  Whatever the counter the handler holds in memory, the toggle-off branch of each of the
  four handlers writes it lowered by 1 and answers 200.
\<close>

lemma decrements_unguarded:
  "find (\<lambda>x. v_id x = v_id video) (Videos d) \<noteq> None \<Longrightarrow> l_type e = Like \<Longrightarrow>
   fst (likeVideo_write u video (Some e) d) =
     (200, MessageVideo ''Like removed'' (video\<lparr>v_likes := v_likes video - 1\<rparr>))"
  "find (\<lambda>x. v_id x = v_id video) (Videos d) \<noteq> None \<Longrightarrow> l_type e = Dislike \<Longrightarrow>
   fst (dislikeVideo_write u video (Some e) d) =
     (200, MessageVideo ''Dislike removed'' (video\<lparr>v_dislikes := v_dislikes video - 1\<rparr>))"
  "find (\<lambda>x. c_id x = c_id comment) (Comments d) \<noteq> None \<Longrightarrow> l_type e = Like \<Longrightarrow>
   fst (likeComment_write u comment (Some e) d) =
     (200, MessageComment ''Like removed'' (comment\<lparr>c_likes := c_likes comment - 1\<rparr>))"
  "find (\<lambda>x. c_id x = c_id comment) (Comments d) \<noteq> None \<Longrightarrow> l_type e = Dislike \<Longrightarrow>
   fst (dislikeComment_write u comment (Some e) d) =
     (200, MessageComment ''Dislike removed'' (comment\<lparr>c_dislikes := c_dislikes comment - 1\<rparr>))"
  by (auto simp: likeVideo_write_def dislikeVideo_write_def likeComment_write_def
        dislikeComment_write_def Video_save_def Comment_save_def Let_def)

section \<open>Deleting a target\<close>

lemma deleteVideo_removes_own_reactions:
  "fst (deleteVideo d u vid) = (200, Message ''Video removed'') \<Longrightarrow>
   filter (\<lambda>r. l_video r = Some vid) (Likes (snd (deleteVideo d u vid))) = []"
  by (auto simp: deleteVideo_def deleteMany_def filter_empty_conv dest: find_SomeD
        split: option.splits if_splits)

lemma deleteComment_removes_own_reactions:
  "fst (deleteComment d u cid) = (200, Message ''Comment removed'') \<Longrightarrow>
   filter (\<lambda>r. l_comment r = Some cid) (Likes (snd (deleteComment d u cid))) = []"
  by (auto simp: deleteComment_def deleteMany_def filter_empty_conv Let_def dest: find_SomeD
        split: option.splits if_splits)

section \<open>The unique indexes under stale reads\<close>

text \<open>
  The write half of a reaction handler keeps the index keys distinct whatever documents
  it holds in memory, also documents another request has changed or removed since they
  were read.
\<close>

lemma set_deleteOne_subset: "set (deleteOne P xs) \<subseteq> set xs"
  by (induction xs) auto

lemma distinct_map_deleteOne: "distinct (map f xs) \<Longrightarrow> distinct (map f (deleteOne P xs))"
proof (induction xs)
  case Nil
  show ?case by simp
next
  case (Cons x xs)
  from set_deleteOne_subset [of P xs] have "f ` set (deleteOne P xs) \<subseteq> f ` set xs" by blast
  with Cons show ?case by auto
qed

lemma Likes_Video_save: "Video_save i upd d = Inr d' \<Longrightarrow> Likes d' = Likes d"
  by (auto simp: Video_save_def split: option.splits)

lemma Likes_Comment_save: "Comment_save i upd d = Inr d' \<Longrightarrow> Likes d' = Likes d"
  by (auto simp: Comment_save_def split: option.splits)

lemma keys_ok_Like_save_type: "keys_ok d \<Longrightarrow> Like_save_type i k d = Inr d' \<Longrightarrow> keys_ok d'"
  by (auto simp: Like_save_type_def keys_ok_def map_updateOne_key split: option.splits)

lemma keys_ok_Like_create: "keys_ok d \<Longrightarrow> Like_create r d = Inr d' \<Longrightarrow> keys_ok d'"
  by (auto simp: Like_create_refused keys_ok_create split: if_splits)

lemma keys_ok_Likes: "keys_ok d \<Longrightarrow> Likes d' = Likes d \<Longrightarrow> keys_ok d'"
  by (simp add: keys_ok_def)

lemma keys_ok_deleteOne:
  "keys_ok d \<Longrightarrow> keys_ok (d\<lparr>Likes := deleteOne P (Likes d)\<rparr>)"
  by (simp add: keys_ok_def distinct_map_deleteOne)

lemma keys_ok_write_halves:
  assumes "keys_ok d"
  shows "keys_ok (snd (likeVideo_write u video existingLike d))"
    and "keys_ok (snd (dislikeVideo_write u video existingLike d))"
    and "keys_ok (snd (likeComment_write u comment existingLike d))"
    and "keys_ok (snd (dislikeComment_write u comment existingLike d))"
  using assms
  by (auto simp: likeVideo_write_def dislikeVideo_write_def likeComment_write_def
        dislikeComment_write_def Let_def
        split: option.splits like_type.splits sum.splits
        intro: keys_ok_Likes keys_ok_deleteOne
        dest!: Likes_Video_save Likes_Comment_save
        dest: keys_ok_Like_save_type keys_ok_Like_create)

section \<open>Facts about the example stores\<close>

lemma race_db_eq:
  "race_db = \<lparr>Videos = [\<lparr>v_id = 0, v_user = 1, v_views = 0, v_likes = 0, v_dislikes = 0\<rparr>],
              Comments = [], Likes = [], nextId = 1\<rparr>"
  by code_simp

lemma demo_db_eq:
  "demo_db =
     \<lparr>Videos = [\<lparr>v_id = 0, v_user = 1, v_views = 0, v_likes = 1, v_dislikes = 2\<rparr>],
      Comments =
        [\<lparr>c_id = 1, c_user = 2, c_video = 0, c_likes = 1, c_dislikes = 0, c_replies = [2],
           c_isReply = False, c_parentComment = None\<rparr>,
         \<lparr>c_id = 2, c_user = 3, c_video = 0, c_likes = 0, c_dislikes = 1, c_replies = [],
           c_isReply = True, c_parentComment = Some 1\<rparr>],
      Likes =
        [\<lparr>l_id = 3, l_user = 2, l_video = Some 0, l_comment = None, l_type = Like\<rparr>,
         \<lparr>l_id = 4, l_user = 3, l_video = Some 0, l_comment = None, l_type = Dislike\<rparr>,
         \<lparr>l_id = 5, l_user = 4, l_video = Some 0, l_comment = None, l_type = Dislike\<rparr>,
         \<lparr>l_id = 6, l_user = 4, l_video = None, l_comment = Some 1, l_type = Like\<rparr>,
         \<lparr>l_id = 7, l_user = 5, l_video = None, l_comment = Some 2, l_type = Dislike\<rparr>],
      nextId = 8\<rparr>"
  by code_simp

lemma reachable_demo_db: "reachable demo_db"
  unfolding demo_db_def by (rule reachable_run) (rule reachable.start)

lemma distinct_key_count:
  "distinct (map f xs) \<Longrightarrow> length (filter (\<lambda>x. f x = k) xs) \<le> 1"
proof (induction xs)
  case Nil
  show ?case by simp
next
  case (Cons x xs)
  show ?case
  proof (cases "f x = k")
    case True
    with Cons.prems have "\<forall>y\<in>set xs. f y \<noteq> k" by (force simp: image_iff)
    then have "filter (\<lambda>x. f x = k) xs = []" by (simp add: filter_empty_conv)
    with True show ?thesis by simp
  next
    case False
    with Cons show ?thesis by simp
  qed
qed

lemma demo_toggle:
  "responses demo_db [LikeVideo 7 0, LikeVideo 7 0] =
     [(200, MessageVideo ''Video liked''
              \<lparr>v_id = 0, v_user = 1, v_views = 0, v_likes = 2, v_dislikes = 2\<rparr>),
      (200, MessageVideo ''Like removed''
              \<lparr>v_id = 0, v_user = 1, v_views = 0, v_likes = 1, v_dislikes = 2\<rparr>)]"
  unfolding demo_db_def demo_requests_def by code_simp

lemma refused_any_kind:
  "refused d (new_reaction d u t k) = refused d (new_reaction d u t k')"
  by (cases t) (simp_all add: refused_eq)

lemma target_counters_store [simp]:
  "target_counters (create_reaction r d) t = target_counters d t"
  "target_counters (delete_reaction i d) t = target_counters d t"
  "target_counters (update_kind i k d) t = target_counters d t"
  by (simp_all add: create_reaction_def delete_reaction_def update_kind_def)

lemma react_lowers_only_held_kind:
  assumes "target_counters d t = Some (l, dl)"
    and "target_counters (react d u t k) t = Some (l', dl')"
  shows "(l' < l \<longrightarrow> map_option l_type (find_reaction d u t) = Some Like) \<and>
         (dl' < dl \<longrightarrow> map_option l_type (find_reaction d u t) = Some Dislike)"
proof (cases "find_reaction d u t")
  case None
  with assms show ?thesis
    by (cases k) (auto simp: react_def target_counters_adjust)
next
  case (Some e)
  with assms show ?thesis
    by (cases k; cases "l_type e") (auto simp: react_def target_counters_adjust)
qed

section \<open>The claims\<close>

subsection \<open>C1: the six-row state machine\<close>

text \<open>
  Lemma \<open>handle_react\<close> above is the state machine as far as the code has it: on a
  store with unique ids, each of the four handlers leaves the store that \<open>react\<close>
  (the six rows of the specification) computes, unless the target is missing or the
  store refuses the insert of the new reaction.

  C1. For every actor and every existing target, a react request performs the transition
  of the six-row table; in particular (none, like) creates a like reaction and adds 1 to
  likes, and (none, dislike) creates a dislike reaction and adds 1 to dislikes. The code
  does not: an actor who already holds a reaction on one video holds none on a second
  video, and the request to like the second video is answered 500 with nothing created
  and no counter changed, because the new document's key (user, null) is already in the
  (user, comment) index. The same happens on a second comment through the (user, video)
  index.
\<close>

theorem second_reaction_refused:
  "(let d = run empty_db [PostVideo 1 True True, PostVideo 1 True True, LikeVideo 2 0]
    in target_counters d (OnVideo 1) = Some (0, 0) \<and>
       find_reaction d 2 (OnVideo 1) = None \<and>
       handle d (LikeVideo 2 1) = ((500, Message ''Server error''), d)) \<and>
   (let d = run empty_db [PostVideo 1 True True, PostComment 1 0 True, PostComment 1 0 True,
                          DislikeComment 2 1]
    in target_counters d (OnComment 2) = Some (0, 0) \<and>
       find_reaction d 2 (OnComment 2) = None \<and>
       handle d (DislikeComment 2 2) = ((500, Message ''Server error''), d))"
  by code_simp

subsection \<open>C2: counters agree with the reactions\<close>

text \<open>
  C2, as stated, fails when two requests overlap: the like requests of actors 2 and 3 on
  video 0 both read \<open>likes = 0\<close> before either writes; both are answered 200, both
  Like documents are stored, and the video is left with \<open>likes = 1\<close>.
\<close>

theorem overlapping_likes_lose_update:
  "(let video = \<lparr>v_id = 0, v_user = 1, v_views = 0, v_likes = 0, v_dislikes = 0\<rparr>;
        d1 = snd (likeVideo_write 2 video None race_db);
        d2 = snd (likeVideo_write 3 video None d1)
    in videoReaction_read race_db 2 0 = Some (video, None) \<and>
       videoReaction_read race_db 3 0 = Some (video, None) \<and>
       fst (likeVideo_write 2 video None race_db) =
         (200, MessageVideo ''Video liked'' (video\<lparr>v_likes := 1\<rparr>)) \<and>
       fst (likeVideo_write 3 video None d1) =
         (200, MessageVideo ''Video liked'' (video\<lparr>v_likes := 1\<rparr>)) \<and>
       target_counters d2 (OnVideo 0) = Some (1, 0) \<and>
       video_reactions Like 0 (Likes d2) = 2)"
  by code_simp

text \<open>
  C2, amended. After any sequence of requests served one after another, each answered
  before the next begins (reactions, deletions and everything else the routes do to
  videos, comments and reactions), the \<open>likes\<close> counter of every stored video and
  comment equals the number of Like documents that point at it with
  type like, and its \<open>dislikes\<close> counter the number with type dislike.
\<close>

theorem counters_agree:
  "reachable d \<Longrightarrow>
   (\<forall>x\<in>set (Videos d).
      v_likes x = video_reactions Like (v_id x) (Likes d) \<and>
      v_dislikes x = video_reactions Dislike (v_id x) (Likes d)) \<and>
   (\<forall>c\<in>set (Comments d).
      c_likes c = comment_reactions Like (c_id c) (Likes d) \<and>
      c_dislikes c = comment_reactions Dislike (c_id c) (Likes d))"
  using reachable_invariant [of d] by (simp add: invariant_def counters_ok_def)

theorem counters_agree_witness:
  "reachable demo_db \<and>
   Videos demo_db = [\<lparr>v_id = 0, v_user = 1, v_views = 0, v_likes = 1, v_dislikes = 2\<rparr>] \<and>
   video_reactions Like 0 (Likes demo_db) = 1 \<and>
   video_reactions Dislike 0 (Likes demo_db) = 2 \<and>
   map (\<lambda>c. (c_likes c, c_dislikes c)) (Comments demo_db) = [(1, 0), (0, 1)] \<and>
   map (\<lambda>c. (comment_reactions Like (c_id c) (Likes demo_db),
              comment_reactions Dislike (c_id c) (Likes demo_db))) (Comments demo_db) =
     [(1, 0), (0, 1)]"
  using counters_agree [OF reachable_demo_db] reachable_demo_db
  by (simp add: demo_db_eq)

subsection \<open>C3: one reaction per actor and target\<close>

text \<open>
  C3. For every actor and every target, every store reached by serving requests holds at
  most one Like document of that actor on that video, and at most one on that comment.
\<close>

theorem reaction_unique:
  "reachable d \<Longrightarrow>
   length (filter (\<lambda>r. l_user r = a \<and> l_video r = Some v) (Likes d)) \<le> 1 \<and>
   length (filter (\<lambda>r. l_user r = a \<and> l_comment r = Some c) (Likes d)) \<le> 1"
proof -
  assume "reachable d"
  then have "keys_ok d" using reachable_invariant [of d] by (simp add: invariant_def)
  then have "length (filter (\<lambda>r. (l_user r, l_video r) = (a, Some v)) (Likes d)) \<le> 1"
    and "length (filter (\<lambda>r. (l_user r, l_comment r) = (a, Some c)) (Likes d)) \<le> 1"
    unfolding keys_ok_def by (simp_all only: distinct_key_count)
  then show ?thesis by simp
qed

theorem reaction_unique_witness:
  "reachable demo_db \<and>
   length (filter (\<lambda>r. l_user r = 4 \<and> l_video r = Some 0) (Likes demo_db)) = 1 \<and>
   length (filter (\<lambda>r. l_user r = 4 \<and> l_comment r = Some 1) (Likes demo_db)) = 1 \<and>
   length (filter (\<lambda>r. l_user r = 4 \<and> l_video r = Some 0) (Likes demo_db)) \<le> 1 \<and>
   length (filter (\<lambda>r. l_user r = 4 \<and> l_comment r = Some 1) (Likes demo_db)) \<le> 1"
  using reaction_unique [OF reachable_demo_db, of 4 0 1] reachable_demo_db
  by (simp add: demo_db_eq)

subsection \<open>C4: reacting twice with the same kind\<close>

text \<open>
  Lemma \<open>toggle_twice_accepted\<close> above is the toggle where the store accepts the insert:
  the first request is answered 200, creates the reaction and raises its counter by 1,
  and the second is answered 200, deletes it and leaves the counters as at the start.

  C4. For every actor and every existing target on which the actor holds no reaction,
  the first of two react requests of the same kind creates the reaction and the second
  toggles it off, ending with no reaction and the starting counters. The code does not,
  by the defect of C1: user 2, who likes video 0, holds no reaction on video 1; both
  requests to like video 1 are answered 500, no reaction is ever created, and nothing is
  toggled.
\<close>

theorem toggle_never_created:
  "(let d = run empty_db [PostVideo 1 True True, PostVideo 1 True True, LikeVideo 2 0]
    in target_counters d (OnVideo 1) = Some (0, 0) \<and>
       find_reaction d 2 (OnVideo 1) = None \<and>
       responses d [LikeVideo 2 1, LikeVideo 2 1] =
         [(500, Message ''Server error''), (500, Message ''Server error'')] \<and>
       find_reaction (run d [LikeVideo 2 1]) 2 (OnVideo 1) = None \<and>
       target_counters (run d [LikeVideo 2 1]) (OnVideo 1) = Some (0, 0) \<and>
       run d [LikeVideo 2 1, LikeVideo 2 1] = d)"
  by code_simp

subsection \<open>C5: cascade on deletion\<close>

text \<open>
  C5. Deleting a target removes the reactions that point at it and leaves no reaction
  of a comment or reply deleted with it. The code removes the target's own reactions
  (lemmas \<open>deleteVideo_removes_own_reactions\<close> and
  \<open>deleteComment_removes_own_reactions\<close>), but not those of the comments a video
  takes with it, nor those of the replies a parent comment takes with it: below, video 0
  has comment 1 with reply 2, each with one reaction; after the video is deleted both
  comment reactions are still stored, and after comment 1 is deleted the reaction on its
  reply is still stored.
\<close>

theorem cascade_leaves_reactions:
  "(let d = run empty_db [PostVideo 1 True True, PostComment 2 0 True, PostReply 3 1 True,
                          LikeVideo 6 0, LikeComment 4 1, DislikeComment 5 2]
    in map (\<lambda>r. (l_video r, l_comment r)) (Likes d) =
         [(Some 0, None), (None, Some 1), (None, Some 2)] \<and>
       fst (handle d (DeleteVideo 1 0)) = (200, Message ''Video removed'') \<and>
       Videos (snd (handle d (DeleteVideo 1 0))) = [] \<and>
       Comments (snd (handle d (DeleteVideo 1 0))) = [] \<and>
       map (\<lambda>r. (l_video r, l_comment r)) (Likes (snd (handle d (DeleteVideo 1 0)))) =
         [(None, Some 1), (None, Some 2)] \<and>
       fst (handle d (DeleteComment 2 1)) = (200, Message ''Comment removed'') \<and>
       Comments (snd (handle d (DeleteComment 2 1))) = [] \<and>
       map (\<lambda>r. (l_video r, l_comment r)) (Likes (snd (handle d (DeleteComment 2 1)))) =
         [(Some 0, None), (None, Some 2)])"
  by code_simp

subsection \<open>C6: a lost race on create\<close>

text \<open>
  C6, as stated, fails: two like requests of actor 2 on video 0 both read "no reaction";
  the first one's insert succeeds, the second one's insert is refused by the unique
  index, and the second request is answered 500 "Server error". Nothing is re-read or
  retried: afterwards the store is the one the first request left.
\<close>

theorem conflict_surfaces_as_500:
  "(let video = \<lparr>v_id = 0, v_user = 1, v_views = 0, v_likes = 0, v_dislikes = 0\<rparr>;
        d1 = snd (likeVideo_write 2 video None race_db)
    in videoReaction_read race_db 2 0 = Some (video, None) \<and>
       fst (likeVideo_write 2 video None race_db) =
         (200, MessageVideo ''Video liked'' (video\<lparr>v_likes := 1\<rparr>)) \<and>
       likeVideo_write 2 video None d1 = ((500, Message ''Server error''), d1) \<and>
       map_option l_type (find_reaction d1 2 (OnVideo 0)) = Some Like \<and>
       target_counters d1 (OnVideo 0) = Some (1, 0))"
  by code_simp

text \<open>
  C6, amended. When the store refuses the insert of the new reaction, each of the four
  handlers answers 500 "Server error" and leaves the store as it found it; there is no
  retry.
\<close>

theorem conflict_answered_500:
  "(refused d (new_reaction d u (OnVideo (v_id video)) k) \<longrightarrow>
      likeVideo_write u video None d = ((500, Message ''Server error''), d) \<and>
      dislikeVideo_write u video None d = ((500, Message ''Server error''), d)) \<and>
   (refused d (new_reaction d u (OnComment (c_id comment)) k) \<longrightarrow>
      likeComment_write u comment None d = ((500, Message ''Server error''), d) \<and>
      dislikeComment_write u comment None d = ((500, Message ''Server error''), d))"
  using refused_any_kind [of d u "OnVideo (v_id video)" k Like]
    refused_any_kind [of d u "OnVideo (v_id video)" k Dislike]
    refused_any_kind [of d u "OnComment (c_id comment)" k Like]
    refused_any_kind [of d u "OnComment (c_id comment)" k Dislike]
  by (simp add: likeVideo_write_def dislikeVideo_write_def likeComment_write_def
        dislikeComment_write_def Like_create_refused server_error_def)

theorem conflict_answered_500_witness:
  "(let video = \<lparr>v_id = 0, v_user = 1, v_views = 0, v_likes = 0, v_dislikes = 0\<rparr>;
        comment = \<lparr>c_id = 1, c_user = 2, c_video = 0, c_likes = 0, c_dislikes = 0,
                   c_replies = [], c_isReply = False, c_parentComment = None\<rparr>
    in refused demo_db (new_reaction demo_db 4 (OnVideo (v_id video)) Like) \<and>
       likeVideo_write 4 video None demo_db = ((500, Message ''Server error''), demo_db) \<and>
       dislikeVideo_write 4 video None demo_db = ((500, Message ''Server error''), demo_db) \<and>
       refused demo_db (new_reaction demo_db 4 (OnComment (c_id comment)) Like) \<and>
       likeComment_write 4 comment None demo_db = ((500, Message ''Server error''), demo_db) \<and>
       dislikeComment_write 4 comment None demo_db = ((500, Message ''Server error''), demo_db))"
proof -
  let ?video = "\<lparr>v_id = 0, v_user = 1, v_views = 0, v_likes = 0, v_dislikes = 0\<rparr>"
  let ?comment = "\<lparr>c_id = 1, c_user = 2, c_video = 0, c_likes = 0, c_dislikes = 0,
                   c_replies = [], c_isReply = False, c_parentComment = None\<rparr>"
  have v: "refused demo_db (new_reaction demo_db 4 (OnVideo (v_id ?video)) Like)"
    and c: "refused demo_db (new_reaction demo_db 4 (OnComment (c_id ?comment)) Like)"
    by (simp_all add: refused_eq demo_db_eq)
  from conflict_answered_500 [of demo_db 4 ?video Like ?comment] v c
  show ?thesis by (simp add: Let_def)
qed

subsection \<open>C7: counters below zero\<close>

text \<open>
  C7, as stated, fails on its last part: no handler guards a decrement or signals an
  internal-consistency error. Two like requests of actors 2 and 3 on video 0 overlap
  (both read \<open>likes = 0\<close>, both store \<open>likes = 1\<close>); actor 2 then removes the like
  (\<open>likes = 0\<close>), and when actor 3 removes the like the handler answers 200 and
  stores \<open>likes = -1\<close>.
\<close>

theorem overlapping_likes_store_negative:
  "(let video = \<lparr>v_id = 0, v_user = 1, v_views = 0, v_likes = 0, v_dislikes = 0\<rparr>;
        d1 = snd (likeVideo_write 2 video None race_db);
        d2 = snd (likeVideo_write 3 video None d1);
        d3 = snd (handle d2 (LikeVideo 2 0))
    in videoReaction_read race_db 2 0 = Some (video, None) \<and>
       videoReaction_read race_db 3 0 = Some (video, None) \<and>
       fst (likeVideo_write 2 video None race_db) =
         (200, MessageVideo ''Video liked'' (video\<lparr>v_likes := 1\<rparr>)) \<and>
       fst (likeVideo_write 3 video None d1) =
         (200, MessageVideo ''Video liked'' (video\<lparr>v_likes := 1\<rparr>)) \<and>
       fst (handle d2 (LikeVideo 2 0)) =
         (200, MessageVideo ''Like removed'' video) \<and>
       map_option l_type (find_reaction d3 3 (OnVideo 0)) = Some Like \<and>
       target_counters d3 (OnVideo 0) = Some (0, 0) \<and>
       fst (handle d3 (LikeVideo 3 0)) =
         (200, MessageVideo ''Like removed'' (video\<lparr>v_likes := - 1\<rparr>)) \<and>
       target_counters (snd (handle d3 (LikeVideo 3 0))) (OnVideo 0) = Some (- 1, 0))"
  by code_simp

text \<open>
  C7, amended. After any sequence of requests served one after another no counter is
  negative, and a react request lowers a counter of its target only when the actor
  holds a reaction of the corresponding kind on it. (No decrement is guarded.)
\<close>

theorem counters_nonnegative:
  "reachable d \<Longrightarrow>
   (\<forall>x\<in>set (Videos d). 0 \<le> v_likes x \<and> 0 \<le> v_dislikes x) \<and>
   (\<forall>c\<in>set (Comments d). 0 \<le> c_likes c \<and> 0 \<le> c_dislikes c) \<and>
   (\<forall>l dl l' dl'.
      target_counters d t = Some (l, dl) \<longrightarrow>
      target_counters (snd (handle d (react_request k u t))) t = Some (l', dl') \<longrightarrow>
      (l' < l \<longrightarrow> map_option l_type (find_reaction d u t) = Some Like) \<and>
      (dl' < dl \<longrightarrow> map_option l_type (find_reaction d u t) = Some Dislike))"
proof -
  assume "reachable d"
  then have inv: "invariant d" by (rule reachable_invariant)
  then have co: "counters_ok d" and ids: "ids_ok d" by (simp_all add: invariant_def)
  from co have "(\<forall>x\<in>set (Videos d). 0 \<le> v_likes x \<and> 0 \<le> v_dislikes x) \<and>
                (\<forall>c\<in>set (Comments d). 0 \<le> c_likes c \<and> 0 \<le> c_dislikes c)"
    by (simp add: counters_ok_def video_reactions_def comment_reactions_def)
  moreover have "(l' < l \<longrightarrow> map_option l_type (find_reaction d u t) = Some Like) \<and>
         (dl' < dl \<longrightarrow> map_option l_type (find_reaction d u t) = Some Dislike)"
    if a: "target_counters d t = Some (l, dl)"
      and b: "target_counters (snd (handle d (react_request k u t))) t = Some (l', dl')"
    for l dl l' dl'
  proof (cases "snd (handle d (react_request k u t)) = d")
    case True
    with a b show ?thesis by simp
  next
    case False
    with handle_react [OF ids, of k u t] have "snd (handle d (react_request k u t)) = react d u t k"
      by (simp split: if_splits)
    with b have "target_counters (react d u t k) t = Some (l', dl')" by simp
    with a show ?thesis by (rule react_lowers_only_held_kind)
  qed
  ultimately show ?thesis by blast
qed

theorem counters_nonnegative_witness:
  "reachable demo_db \<and>
   list_all (\<lambda>x. 0 \<le> v_likes x \<and> 0 \<le> v_dislikes x) (Videos demo_db) \<and>
   list_all (\<lambda>c. 0 \<le> c_likes c \<and> 0 \<le> c_dislikes c) (Comments demo_db) \<and>
   target_counters demo_db (OnVideo 0) = Some (1, 2) \<and>
   target_counters (snd (handle demo_db (react_request Like 2 (OnVideo 0)))) (OnVideo 0) = Some (0, 2) \<and>
   map_option l_type (find_reaction demo_db 2 (OnVideo 0)) = Some Like"
proof -
  have a: "target_counters demo_db (OnVideo 0) = Some (1, 2)" by (simp add: demo_db_eq)
  have b: "target_counters (snd (handle demo_db (react_request Like 2 (OnVideo 0)))) (OnVideo 0) = Some (0, 2)"
    unfolding demo_db_def demo_requests_def by code_simp
  from counters_nonnegative [OF reachable_demo_db, of "OnVideo 0" Like 2] a b
  have "map_option l_type (find_reaction demo_db 2 (OnVideo 0)) = Some Like"
    and "\<forall>x\<in>set (Videos demo_db). 0 \<le> v_likes x \<and> 0 \<le> v_dislikes x"
    and "\<forall>c\<in>set (Comments demo_db). 0 \<le> c_likes c \<and> 0 \<le> c_dislikes c"
    by auto
  with a b reachable_demo_db show ?thesis by (simp add: list_all_iff)
qed

subsection \<open>C8: like-status\<close>

text \<open>
  C8. \<open>GET /videos/:id/like-status\<close> answers 200 with \<open>liked\<close> true exactly when the
  actor's reaction on the video has type like and \<open>disliked\<close> true exactly when it
  has type dislike; the two are never both true, and both are false exactly when the
  actor holds no reaction on the video.
\<close>

theorem likeStatus_reflects_reaction:
  "let kind = map_option l_type (find_reaction d u (OnVideo vid));
       liked = (kind = Some Like);
       disliked = (kind = Some Dislike)
   in likeStatus d u (ObjectId vid) = (200, LikeStatus liked disliked) \<and>
      \<not> (liked \<and> disliked) \<and>
      ((\<not> liked \<and> \<not> disliked) = (kind = None)) \<and>
      ((kind = None) = (\<not> (\<exists>r\<in>set (Likes d). l_user r = u \<and> l_video r = Some vid)))"
proof (cases "find (\<lambda>r. l_user r = u \<and> l_video r = Some vid) (Likes d)")
  case None
  then have "\<not> (\<exists>r\<in>set (Likes d). l_user r = u \<and> l_video r = Some vid)"
    by (simp add: find_None_iff)
  with None show ?thesis by (simp add: likeStatus_def)
next
  case (Some e)
  then have "e \<in> set (Likes d) \<and> l_user e = u \<and> l_video e = Some vid" by (auto dest: find_SomeD)
  with Some show ?thesis by (cases "l_type e") (auto simp: likeStatus_def)
qed

theorem likeStatus_reflects_reaction_witness:
  "likeStatus demo_db 2 (ObjectId 0) = (200, LikeStatus True False) \<and>
   likeStatus demo_db 3 (ObjectId 0) = (200, LikeStatus False True) \<and>
   likeStatus demo_db 7 (ObjectId 0) = (200, LikeStatus False False) \<and>
   map_option l_type (find_reaction demo_db 2 (OnVideo 0)) = Some Like \<and>
   map_option l_type (find_reaction demo_db 3 (OnVideo 0)) = Some Dislike \<and>
   find_reaction demo_db 7 (OnVideo 0) = None"
  using likeStatus_reflects_reaction [of demo_db 2 0] likeStatus_reflects_reaction [of demo_db 3 0]
    likeStatus_reflects_reaction [of demo_db 7 0]
  by (simp add: demo_db_eq likeStatus_def)

subsection \<open>C9: exactly one target\<close>

text \<open>
  C9. Every Like document in a store reached by serving requests references a video or
  a comment, never both and never neither.
\<close>

theorem reaction_one_target:
  "reachable d \<Longrightarrow> \<forall>r\<in>set (Likes d). (l_video r = None) \<noteq> (l_comment r = None)"
  using reachable_invariant [of d] by (simp add: invariant_def refs_ok_def one_target_def)

theorem reaction_one_target_witness:
  "reachable demo_db \<and> length (Likes demo_db) = 5 \<and>
   list_all (\<lambda>r. (l_video r = None) \<noteq> (l_comment r = None)) (Likes demo_db)"
  using reaction_one_target [OF reachable_demo_db] reachable_demo_db
  by (simp add: demo_db_eq)

subsection \<open>C10: like-status of a missing video\<close>

text \<open>
  C10, as stated, fails in two ways. An \<open>:id\<close> that is not an ObjectId names no video
  and is answered 500. And when a like request has read video 0 and the video is deleted
  before the like is written, the Like document is stored (the save of the video then
  fails, 500) and stays; the like-status of the deleted video is then answered 200 with
  \<open>liked\<close> true.
\<close>

theorem likeStatus_missing_video_answers:
  "likeStatus race_db 2 NotAnObjectId = (500, Message ''Server error'') \<and>
   (let video = \<lparr>v_id = 0, v_user = 1, v_views = 0, v_likes = 0, v_dislikes = 0\<rparr>;
        d1 = snd (handle race_db (DeleteVideo 1 0));
        d2 = snd (likeVideo_write 2 video None d1)
    in videoReaction_read race_db 2 0 = Some (video, None) \<and>
       fst (handle race_db (DeleteVideo 1 0)) = (200, Message ''Video removed'') \<and>
       fst (likeVideo_write 2 video None d1) = (500, Message ''Server error'') \<and>
       find (\<lambda>x. v_id x = 0) (Videos d2) = None \<and>
       likeStatus d2 2 (ObjectId 0) = (200, LikeStatus True False))"
  by code_simp

text \<open>
  C10, amended. For a video id that names no stored video the handler never answers 404:
  an id that is not an ObjectId is answered 500, and an ObjectId is answered 200, with
  both flags false exactly when no Like document of the actor names that id, which is
  the case whenever the requests so far were served one after another.
\<close>

theorem likeStatus_never_not_found:
  "fst (likeStatus d u param) \<noteq> 404 \<and>
   likeStatus d u NotAnObjectId = (500, Message ''Server error'') \<and>
   fst (likeStatus d u (ObjectId vid)) = 200 \<and>
   ((likeStatus d u (ObjectId vid) = (200, LikeStatus False False)) =
      (find_reaction d u (OnVideo vid) = None)) \<and>
   (reachable d \<longrightarrow> find (\<lambda>x. v_id x = vid) (Videos d) = None \<longrightarrow>
      likeStatus d u (ObjectId vid) = (200, LikeStatus False False))"
proof -
  have a: "fst (likeStatus d u p) \<noteq> 404" for p
    by (simp add: likeStatus_def server_error_def split: id_param.splits option.splits)
  have b: "likeStatus d u NotAnObjectId = (500, Message ''Server error'')"
    by (simp add: likeStatus_def server_error_def)
  have c: "fst (likeStatus d u (ObjectId vid)) = 200"
    by (simp add: likeStatus_def split: option.splits)
  have f: "(likeStatus d u (ObjectId vid) = (200, LikeStatus False False)) =
      (find_reaction d u (OnVideo vid) = None)"
  proof (cases "find (\<lambda>r. l_user r = u \<and> l_video r = Some vid) (Likes d)")
    case None
    then show ?thesis by (simp add: likeStatus_def)
  next
    case (Some e)
    then show ?thesis by (cases "l_type e") (simp_all add: likeStatus_def)
  qed
  have e: "likeStatus d u (ObjectId vid) = (200, LikeStatus False False)"
    if "reachable d" and nf: "find (\<lambda>x. v_id x = vid) (Videos d) = None"
  proof -
    from that have "refs_ok d" using reachable_invariant [of d] by (simp add: invariant_def)
    with nf have "\<forall>r\<in>set (Likes d). l_video r \<noteq> Some vid"
      by (force simp: refs_ok_def find_None_iff)
    then have "find (\<lambda>r. l_user r = u \<and> l_video r = Some vid) (Likes d) = None"
      by (simp add: find_None_iff)
    then show ?thesis by (simp add: likeStatus_def)
  qed
  from a b c e f show ?thesis by blast
qed

theorem likeStatus_never_not_found_witness:
  "reachable demo_db \<and> find (\<lambda>x. v_id x = 42) (Videos demo_db) = None \<and>
   likeStatus demo_db 2 (ObjectId 42) = (200, LikeStatus False False) \<and>
   likeStatus demo_db 2 NotAnObjectId = (500, Message ''Server error'') \<and>
   fst (likeStatus demo_db 2 (ObjectId 0)) = 200"
proof -
  have nf: "find (\<lambda>x. v_id x = 42) (Videos demo_db) = None" by (simp add: demo_db_eq)
  from likeStatus_never_not_found [of demo_db 2 "ObjectId 42" 42] nf reachable_demo_db
  have "likeStatus demo_db 2 (ObjectId 42) = (200, LikeStatus False False)"
    and "likeStatus demo_db 2 NotAnObjectId = (500, Message ''Server error'')"
    by simp_all
  moreover from likeStatus_never_not_found [of demo_db 2 "ObjectId 0" 0]
  have "fst (likeStatus demo_db 2 (ObjectId 0)) = 200" by simp
  ultimately show ?thesis using nf reachable_demo_db by simp
qed


end
